theory Spec2Isabelle
  imports Main "HOL-Library.Word" "HOL-Library.Log_Nat"
begin

section \<open>Values of the Python program\<close>

text \<open>
  The module \<open>wsi/filter.py\<close> is a collection of wrappers around NumPy and scikit-image.
  An image is a NumPy array: a shape and a buffer of elements of one element type. The
  three element types of the images of this module are boolean, 8-bit unsigned integer
  and 64-bit floating point.

  A finite binary64 value is modelled by the rational number it denotes (\<open>f64\<close>); an
  arithmetic operation on floats is the exact operation followed by \<open>f64_round\<close>.
  Infinities and NaN are not modelled, and the two zeros are one value.
\<close>

type_synonym u8 = "8 word"
type_synonym f64 = rat

datatype py_error =
    ValueError
  | NameError string
  | LibraryError string

datatype elems =
    Bools "bool list"
  | UInt8s "u8 list"
  | Float64s "f64 list"

datatype ndarray = NDArray (shape: "nat list") (elems: elems)

text \<open>Raising is a value: \<open>Inl\<close> is the exception, \<open>Inr\<close> the result.\<close>

definition bindE :: "'e + 'a \<Rightarrow> ('a \<Rightarrow> 'e + 'b) \<Rightarrow> 'e + 'b" where
  "bindE m f = (case m of Inl e \<Rightarrow> Inl e | Inr x \<Rightarrow> f x)"

subsection \<open>Rounding to binary64\<close>

definition pow2 :: "int \<Rightarrow> rat" where
  "pow2 e = (if 0 \<le> e then 2 ^ nat e else 1 / 2 ^ nat (- e))"

text \<open>\<open>ilog2 x\<close> is the exponent \<open>e\<close> with \<open>2^e \<le> x < 2^(e+1)\<close>, for \<open>x > 0\<close>.\<close>

definition ilog2 :: "rat \<Rightarrow> int" where
  "ilog2 x = (let (p, q) = quotient_of x; d = bitlen p - bitlen q
              in if pow2 d \<le> x then d else d - 1)"

definition round_half_even :: "rat \<Rightarrow> int" where
  "round_half_even q =
     (let n = \<lfloor>q\<rfloor>; r = q - of_int n
      in if r < 1 / 2 then n
         else if 1 / 2 < r then n + 1
         else if even n then n else n + 1)"

text \<open>
  Round to nearest, ties to even, with a significand of 53 bits; below \<open>2^-1022\<close> the
  spacing stays \<open>2^-1074\<close> (subnormal numbers). Overflow to infinity is not modelled: no
  operation of this module on finite floats reaches it.
\<close>

definition f64_round :: "rat \<Rightarrow> f64" where
  "f64_round x =
     (if x = 0 then 0
      else let e = max (ilog2 \<bar>x\<bar>) (- 1022); ulp = pow2 (e - 52)
           in of_int (round_half_even (x / ulp)) * ulp)"

definition is_f64 :: "rat \<Rightarrow> bool" where
  "is_f64 x = (f64_round x = x)"

definition f64_sub :: "f64 \<Rightarrow> f64 \<Rightarrow> f64" where
  "f64_sub a b = f64_round (a - b)"

definition f64_add :: "f64 \<Rightarrow> f64 \<Rightarrow> f64" where
  "f64_add a b = f64_round (a + b)"

definition f64_mul :: "f64 \<Rightarrow> f64 \<Rightarrow> f64" where
  "f64_mul a b = f64_round (a * b)"

definition f64_div :: "f64 \<Rightarrow> f64 \<Rightarrow> f64" where
  "f64_div a b = f64_round (a / b)"

text \<open>A Python float literal is the binary64 value nearest to the decimal.\<close>

definition py_float :: "rat \<Rightarrow> f64" where
  "py_float d = f64_round d"

subsection \<open>Element conversions (\<open>astype\<close>)\<close>

definition u8_of_bool :: "bool \<Rightarrow> u8" where
  "u8_of_bool b = (if b then 1 else 0)"

definition f64_of_bool :: "bool \<Rightarrow> f64" where
  "f64_of_bool b = (if b then 1 else 0)"

definition f64_of_u8 :: "u8 \<Rightarrow> f64" where
  "f64_of_u8 x = of_nat (unat x)"

text \<open>Truncation towards zero, the conversion of C from double to an integer.\<close>

definition trunc :: "rat \<Rightarrow> int" where
  "trunc x = (if 0 \<le> x then \<lfloor>x\<rfloor> else \<lceil>x\<rceil>)"

text \<open>
  \<open>astype("uint8")\<close> of a float truncates; a value outside the range of the type is
  reduced modulo 256 here (C leaves that case undefined).
\<close>

definition u8_of_f64 :: "f64 \<Rightarrow> u8" where
  "u8_of_f64 x = word_of_int (trunc x)"

definition elems_len :: "elems \<Rightarrow> nat" where
  "elems_len es = (case es of Bools xs \<Rightarrow> length xs | UInt8s xs \<Rightarrow> length xs
                   | Float64s xs \<Rightarrow> length xs)"

definition arr_size :: "ndarray \<Rightarrow> nat" where
  "arr_size a = elems_len (elems a)"

text \<open>A well-formed array holds as many elements as its shape says.\<close>

definition wf_array :: "ndarray \<Rightarrow> bool" where
  "wf_array a = (arr_size a = prod_list (shape a))"

definition astype_bool :: "ndarray \<Rightarrow> ndarray" where
  "astype_bool a = NDArray (shape a)
     (case elems a of
        Bools xs \<Rightarrow> Bools xs
      | UInt8s xs \<Rightarrow> Bools (map (\<lambda>x. x \<noteq> 0) xs)
      | Float64s xs \<Rightarrow> Bools (map (\<lambda>x. x \<noteq> 0) xs))"

definition astype_float :: "ndarray \<Rightarrow> ndarray" where
  "astype_float a = NDArray (shape a)
     (case elems a of
        Bools xs \<Rightarrow> Float64s (map f64_of_bool xs)
      | UInt8s xs \<Rightarrow> Float64s (map f64_of_u8 xs)
      | Float64s xs \<Rightarrow> Float64s xs)"

definition astype_uint8 :: "ndarray \<Rightarrow> ndarray" where
  "astype_uint8 a = NDArray (shape a)
     (case elems a of
        Bools xs \<Rightarrow> UInt8s (map u8_of_bool xs)
      | UInt8s xs \<Rightarrow> UInt8s xs
      | Float64s xs \<Rightarrow> UInt8s (map u8_of_f64 xs))"

subsection \<open>Arithmetic of an array and a Python scalar\<close>

text \<open>
  A Python integer that fits the element type of an integer array takes that type, and a
  boolean array with the integer 255 gives an array of 8-bit unsigned integers (NumPy's
  promotion of a scalar by its value); integer arithmetic wraps around. With a float
  array the integer becomes a float.
\<close>

definition np_mul_int :: "ndarray \<Rightarrow> u8 \<Rightarrow> ndarray" where
  "np_mul_int a k = NDArray (shape a)
     (case elems a of
        Bools xs \<Rightarrow> UInt8s (map (\<lambda>b. u8_of_bool b * k) xs)
      | UInt8s xs \<Rightarrow> UInt8s (map (\<lambda>x. x * k) xs)
      | Float64s xs \<Rightarrow> Float64s (map (\<lambda>x. f64_mul x (f64_of_u8 k)) xs))"

definition np_rsub_int :: "u8 \<Rightarrow> ndarray \<Rightarrow> ndarray" where
  "np_rsub_int k a = NDArray (shape a)
     (case elems a of
        Bools xs \<Rightarrow> UInt8s (map (\<lambda>b. k - u8_of_bool b) xs)
      | UInt8s xs \<Rightarrow> UInt8s (map (\<lambda>x. k - x) xs)
      | Float64s xs \<Rightarrow> Float64s (map (\<lambda>x. f64_sub (f64_of_u8 k) x) xs))"

definition np_rsub_float :: "f64 \<Rightarrow> ndarray \<Rightarrow> ndarray" where
  "np_rsub_float c a = NDArray (shape a)
     (case elems a of
        Bools xs \<Rightarrow> Float64s (map (\<lambda>b. f64_sub c (f64_of_bool b)) xs)
      | UInt8s xs \<Rightarrow> Float64s (map (\<lambda>x. f64_sub c (f64_of_u8 x)) xs)
      | Float64s xs \<Rightarrow> Float64s (map (\<lambda>x. f64_sub c x) xs))"

definition np_div_int :: "ndarray \<Rightarrow> u8 \<Rightarrow> ndarray" where
  "np_div_int a k = NDArray (shape a)
     (case elems a of
        Bools xs \<Rightarrow> Float64s (map (\<lambda>b. f64_div (f64_of_bool b) (f64_of_u8 k)) xs)
      | UInt8s xs \<Rightarrow> Float64s (map (\<lambda>x. f64_div (f64_of_u8 x) (f64_of_u8 k)) xs)
      | Float64s xs \<Rightarrow> Float64s (map (\<lambda>x. f64_div x (f64_of_u8 k)) xs))"

subsection \<open>Comparisons\<close>

text \<open>
  A comparison compares the numbers the elements denote and gives a boolean array.
  Two arrays are compared element by element; the arrays compared in this module have
  one shape (a rank filter returns an array of the shape of its input), and operands of
  different shapes raise here (NumPy's broadcasting between shapes is not modelled).
\<close>

definition elem_vals :: "elems \<Rightarrow> rat list" where
  "elem_vals es = (case es of
      Bools xs \<Rightarrow> map f64_of_bool xs
    | UInt8s xs \<Rightarrow> map f64_of_u8 xs
    | Float64s xs \<Rightarrow> xs)"

definition np_gt_scalar :: "ndarray \<Rightarrow> rat \<Rightarrow> ndarray" where
  "np_gt_scalar a t = NDArray (shape a) (Bools (map (\<lambda>x. t < x) (elem_vals (elems a))))"

definition np_gt :: "ndarray \<Rightarrow> ndarray \<Rightarrow> py_error + ndarray" where
  "np_gt a b =
     (if shape a = shape b
      then Inr (NDArray (shape a)
             (Bools (map2 (\<lambda>x y. y < x) (elem_vals (elems a)) (elem_vals (elems b)))))
      else Inl ValueError)"

definition np_le :: "ndarray \<Rightarrow> ndarray \<Rightarrow> py_error + ndarray" where
  "np_le a b =
     (if shape a = shape b
      then Inr (NDArray (shape a)
             (Bools (map2 (\<lambda>x y. x \<le> y) (elem_vals (elems a)) (elem_vals (elems b)))))
      else Inl ValueError)"

text \<open>The elements of an array that are not zero (\<open>astype(bool)\<close>).\<close>

definition mask_of :: "ndarray \<Rightarrow> bool list" where
  "mask_of a = map (\<lambda>v. v \<noteq> 0) (elem_vals (elems a))"

text \<open>\<open>np.ones((n, n))\<close>: a negative dimension raises.\<close>

definition np_ones2 :: "int \<Rightarrow> py_error + ndarray" where
  "np_ones2 n =
     (if n < 0 then Inl ValueError
      else Inr (NDArray [nat n, nat n] (Float64s (replicate (nat n * nat n) 1))))"

section \<open>The functions of \<open>wsi/filter.py\<close>\<close>

subsection \<open>\<open>np_info\<close>\<close>

text \<open>
  \<open>np_info\<close> prints one line of statistics and returns nothing. The line holds the
  elapsed wall-clock time and is no part of any result, so the model keeps only what the
  caller can observe of the call: \<open>np_arr.max()\<close> raises \<open>ValueError\<close> on an array
  without elements.
\<close>

definition np_info :: "ndarray \<Rightarrow> py_error + unit" where
  "np_info np_arr = (if arr_size np_arr = 0 then Inl ValueError else Inr ())"

text \<open>The last two statements of every filter: report, then return.\<close>

definition report_and_return :: "ndarray \<Rightarrow> py_error + ndarray" where
  "report_and_return r = bindE (np_info r) (\<lambda>_. Inr r)"

subsection \<open>Luminance\<close>

text \<open>
  \<open>np.dot(np_img[..., :3], [0.2125, 0.7154, 0.0721])\<close>: the RGB image comes from
  \<open>pil_to_np_rgb\<close> and holds 8-bit unsigned integers, one list of channels per pixel.
  NumPy converts both operands to floats and sums the three products from the left,
  starting from zero. A last axis shorter than three does not match the three weights
  and raises.
\<close>

definition gray_weights :: "f64 list" where
  "gray_weights = [py_float (2125 / 10000), py_float (7154 / 10000), py_float (721 / 10000)]"

definition np_dot :: "f64 list \<Rightarrow> f64 list \<Rightarrow> f64" where
  "np_dot xs ws = foldl (\<lambda>tmp (x, w). f64_add tmp (f64_mul x w)) 0 (zip xs ws)"

text \<open>An RGB image: shape \<open>(h, w, c)\<close>, as rows of pixels of \<open>c\<close> channels.\<close>

record rgb_image =
  height :: nat
  width :: nat
  channels :: nat
  pixels :: "u8 list list"

definition wf_rgb :: "rgb_image \<Rightarrow> bool" where
  "wf_rgb img = (length (pixels img) = height img * width img \<and>
                 list_all (\<lambda>px. length px = channels img) (pixels img))"

definition filter_rgb_to_grayscale :: "rgb_image \<Rightarrow> string \<Rightarrow> py_error + ndarray" where
  "filter_rgb_to_grayscale np_img output_type =
     (if channels np_img < 3 then Inl ValueError
      else
        let grayscale = NDArray [height np_img, width np_img]
              (Float64s (map (\<lambda>px. np_dot (map f64_of_u8 (take 3 px)) gray_weights)
                             (pixels np_img)));
            grayscale = (if output_type \<noteq> ''float'' then astype_uint8 grayscale
                         else grayscale)
        in report_and_return grayscale)"

definition filter_complement :: "ndarray \<Rightarrow> string \<Rightarrow> py_error + ndarray" where
  "filter_complement np_img output_type =
     (let complement = (if output_type = ''float'' then np_rsub_float 1 np_img
                        else np_rsub_int 255 np_img)
      in report_and_return complement)"

subsection \<open>Thresholds\<close>

text \<open>
  The algorithms of scikit-image are no part of this module: a filter takes the library
  function it calls as its first argument. A library function may raise.
\<close>

definition filter_hysteresis_threshold ::
  "(ndarray \<Rightarrow> rat \<Rightarrow> rat \<Rightarrow> py_error + ndarray) \<Rightarrow>
   ndarray \<Rightarrow> rat \<Rightarrow> rat \<Rightarrow> string \<Rightarrow> py_error + ndarray" where
  "filter_hysteresis_threshold apply_hysteresis_threshold np_img low high output_type =
     bindE (apply_hysteresis_threshold np_img low high) (\<lambda>hyst.
       let hyst = (if output_type = ''bool'' then hyst
                   else if output_type = ''float'' then astype_float hyst
                   else astype_uint8 (np_mul_int hyst 255))
       in report_and_return hyst)"

definition filter_otsu_threshold ::
  "(ndarray \<Rightarrow> py_error + rat) \<Rightarrow> ndarray \<Rightarrow> string \<Rightarrow> py_error + ndarray" where
  "filter_otsu_threshold threshold_otsu np_img output_type =
     bindE (threshold_otsu np_img) (\<lambda>otsu_thresh_value.
       let otsu = np_gt_scalar np_img otsu_thresh_value;
           otsu = (if output_type = ''bool'' then otsu
                   else if output_type = ''float'' then astype_float otsu
                   else np_mul_int (astype_uint8 otsu) 255)
       in report_and_return otsu)"

definition filter_local_otsu_threshold ::
  "(ndarray \<Rightarrow> ndarray \<Rightarrow> py_error + ndarray) \<Rightarrow> (int \<Rightarrow> py_error + ndarray) \<Rightarrow>
   ndarray \<Rightarrow> int \<Rightarrow> string \<Rightarrow> py_error + ndarray" where
  "filter_local_otsu_threshold rank_otsu disk np_img disk_size output_type =
     bindE (disk disk_size) (\<lambda>selem.
     bindE (rank_otsu np_img selem) (\<lambda>local_otsu.
     bindE (np_le np_img local_otsu) (\<lambda>local_otsu.
       let local_otsu = (if output_type = ''bool'' then local_otsu
                         else if output_type = ''float'' then astype_float local_otsu
                         else np_mul_int (astype_uint8 local_otsu) 255)
       in report_and_return local_otsu)))"

definition filter_entropy ::
  "(ndarray \<Rightarrow> ndarray \<Rightarrow> py_error + ndarray) \<Rightarrow>
   ndarray \<Rightarrow> int \<Rightarrow> rat \<Rightarrow> string \<Rightarrow> py_error + ndarray" where
  "filter_entropy rank_entropy np_img neighborhood threshold output_type =
     bindE (np_ones2 neighborhood) (\<lambda>selem.
     bindE (rank_entropy np_img selem) (\<lambda>e.
       let entr = np_gt_scalar e threshold;
           entr = (if output_type = ''bool'' then entr
                   else if output_type = ''float'' then astype_float entr
                   else np_mul_int (astype_uint8 entr) 255)
       in report_and_return entr))"

definition filter_canny ::
  "(ndarray \<Rightarrow> rat \<Rightarrow> rat \<Rightarrow> rat \<Rightarrow> py_error + ndarray) \<Rightarrow>
   ndarray \<Rightarrow> rat \<Rightarrow> rat \<Rightarrow> rat \<Rightarrow> string \<Rightarrow> py_error + ndarray" where
  "filter_canny canny np_img sigma low_threshold high_threshold output_type =
     bindE (canny np_img sigma low_threshold high_threshold) (\<lambda>can.
       let can = (if output_type = ''bool'' then can
                  else if output_type = ''float'' then astype_float can
                  else np_mul_int (astype_uint8 can) 255)
       in report_and_return can)"

subsection \<open>Small objects\<close>

definition filter_remove_small_objects ::
  "(ndarray \<Rightarrow> int \<Rightarrow> py_error + ndarray) \<Rightarrow>
   ndarray \<Rightarrow> int \<Rightarrow> string \<Rightarrow> py_error + ndarray" where
  "filter_remove_small_objects remove_small_objects np_img min_size output_type =
     (let rem_sm = astype_bool np_img
      in bindE (remove_small_objects rem_sm min_size) (\<lambda>rem_sm.
           let rem_sm = (if output_type = ''bool'' then rem_sm
                         else if output_type = ''float'' then astype_float rem_sm
                         else np_mul_int (astype_uint8 rem_sm) 255)
           in report_and_return rem_sm))"

subsection \<open>Contrast\<close>

definition is_uint8 :: "ndarray \<Rightarrow> bool" where
  "is_uint8 a = (case elems a of UInt8s _ \<Rightarrow> True | _ \<Rightarrow> False)"

definition filter_histogram_equalization ::
  "(ndarray \<Rightarrow> int \<Rightarrow> py_error + ndarray) \<Rightarrow>
   ndarray \<Rightarrow> int \<Rightarrow> string \<Rightarrow> py_error + ndarray" where
  "filter_histogram_equalization equalize_hist np_img nbins output_type =
     (let np_img = (if is_uint8 np_img \<and> nbins \<noteq> 256 then np_div_int np_img 255
                    else np_img)
      in bindE (equalize_hist np_img nbins) (\<lambda>hist_equ.
           let hist_equ = (if output_type = ''float'' then hist_equ
                           else astype_uint8 (np_mul_int hist_equ 255))
           in report_and_return hist_equ))"

definition filter_adaptive_equalization ::
  "(ndarray \<Rightarrow> int \<Rightarrow> rat \<Rightarrow> py_error + ndarray) \<Rightarrow>
   ndarray \<Rightarrow> int \<Rightarrow> rat \<Rightarrow> string \<Rightarrow> py_error + ndarray" where
  "filter_adaptive_equalization equalize_adapthist np_img nbins clip_limit output_type =
     bindE (equalize_adapthist np_img nbins clip_limit) (\<lambda>adapt_equ.
       let adapt_equ = (if output_type = ''float'' then adapt_equ
                        else astype_uint8 (np_mul_int adapt_equ 255))
       in report_and_return adapt_equ)"

definition filter_autolevel ::
  "(ndarray \<Rightarrow> ndarray \<Rightarrow> py_error + ndarray) \<Rightarrow> (int \<Rightarrow> py_error + ndarray) \<Rightarrow>
   ndarray \<Rightarrow> int \<Rightarrow> string \<Rightarrow> py_error + ndarray" where
  "filter_autolevel rank_autolevel disk np_img disk_size output_type =
     bindE (disk disk_size) (\<lambda>selem.
     bindE (rank_autolevel np_img selem) (\<lambda>autolevel.
     bindE (np_gt np_img autolevel) (\<lambda>autolevel.
       let autolevel = (if output_type = ''bool'' then autolevel
                        else if output_type = ''float'' then astype_float autolevel
                        else np_mul_int (astype_uint8 autolevel) 255)
       in report_and_return autolevel)))"

definition filter_subtract_mean ::
  "(ndarray \<Rightarrow> ndarray \<Rightarrow> py_error + ndarray) \<Rightarrow>
   ndarray \<Rightarrow> int \<Rightarrow> string \<Rightarrow> py_error + ndarray" where
  "filter_subtract_mean rank_subtract_mean np_img neigh output_type =
     bindE (np_ones2 neigh) (\<lambda>selem.
     bindE (rank_subtract_mean np_img selem) (\<lambda>subtract_mean.
     bindE (np_gt np_img subtract_mean) (\<lambda>subtract_mean.
       let subtract_mean = (if output_type = ''bool'' then subtract_mean
                            else if output_type = ''float'' then astype_float subtract_mean
                            else np_mul_int (astype_uint8 subtract_mean) 255)
       in report_and_return subtract_mean)))"

definition filter_modal ::
  "(ndarray \<Rightarrow> ndarray \<Rightarrow> py_error + ndarray) \<Rightarrow>
   ndarray \<Rightarrow> int \<Rightarrow> string \<Rightarrow> py_error + ndarray" where
  "filter_modal rank_modal np_img neigh output_type =
     bindE (np_ones2 neigh) (\<lambda>selem.
     bindE (rank_modal np_img selem) (\<lambda>modal.
       report_and_return modal))"

subsection \<open>The script at the end of the module\<close>

text \<open>
  The statements at the top level of the module run when it is imported. They call the
  slide module and the image viewer, which are taken as parameters and may raise.
  A PIL image is modelled by the array of its pixels.
\<close>

record collaborators =
  import_modules :: "py_error + unit"
  get_training_thumb_path :: "int \<Rightarrow> py_error + string"
  open_image :: "string \<Rightarrow> py_error + rgb_image"
  show_image :: "ndarray \<Rightarrow> py_error + unit"

definition rgb_array :: "rgb_image \<Rightarrow> ndarray" where
  "rgb_array img = NDArray [height img, width img, channels img] (UInt8s (concat (pixels img)))"

definition pil_to_np_rgb :: "rgb_image \<Rightarrow> py_error + rgb_image" where
  "pil_to_np_rgb pil_img =
     (let rgb = pil_img in bindE (np_info (rgb_array rgb)) (\<lambda>_. Inr rgb))"

definition np_to_pil :: "ndarray \<Rightarrow> ndarray" where
  "np_to_pil np_img = np_img"

text \<open>
  The names bound in the module when its last statement runs: the imports, the functions
  defined by \<open>def\<close> and the variables assigned so far. The definition of \<open>filter_try\<close>
  is commented out, and no builtin of Python has that name.
\<close>

definition module_globals :: "string list" where
  "module_globals =
     [''plt'', ''np'', ''PIL'', ''sk_exposure'', ''sk_feature'', ''sk_filters'',
      ''sk_morphology'', ''slide'', ''Time'',
      ''pil_to_np_rgb'', ''np_to_pil'', ''filter_rgb_to_grayscale'', ''filter_complement'',
      ''np_info'', ''filter_hysteresis_threshold'', ''filter_otsu_threshold'',
      ''filter_local_otsu_threshold'', ''filter_entropy'', ''filter_canny'',
      ''filter_remove_small_objects'', ''filter_contrast_stretch'',
      ''filter_histogram_equalization'', ''filter_adaptive_equalization'',
      ''filter_local_equalization'', ''filter_autolevel'', ''filter_subtract_mean'',
      ''filter_modal'',
      ''img_path'', ''img'', ''rgb'', ''gray'', ''complement'']"

definition lookup_name :: "string list \<Rightarrow> string \<Rightarrow> py_error + unit" where
  "lookup_name names n = (if n \<in> set names then Inr () else Inl (NameError n))"

text \<open>Importing the module: \<open>Inr ()\<close> would be an import that completes.\<close>

definition module_script :: "collaborators \<Rightarrow> py_error + unit" where
  "module_script ext =
     bindE (import_modules ext) (\<lambda>_.
     bindE (get_training_thumb_path ext 2) (\<lambda>img_path.
     bindE (open_image ext img_path) (\<lambda>img.
     bindE (pil_to_np_rgb img) (\<lambda>rgb.
     bindE (filter_rgb_to_grayscale rgb ''uint8'') (\<lambda>gray.
     bindE (show_image ext (np_to_pil gray)) (\<lambda>_.
     bindE (filter_complement gray ''uint8'') (\<lambda>complement.
     bindE (lookup_name module_globals ''filter_try'') (\<lambda>_.
       Inr ()))))))))"

section \<open>Two functions of scikit-image\<close>

text \<open>
  The functions of this section are not code of the module: they are the two library
  functions whose result decides what \<open>filter_remove_small_objects\<close> and
  \<open>filter_subtract_mean\<close> compute, written after the documentation of scikit-image.
\<close>

subsection \<open>\<open>skimage.morphology.remove_small_objects\<close>\<close>

text \<open>
  \<open>remove_small_objects(ar, min_size=64, connectivity=1)\<close> labels the connected
  components of a boolean array and clears every component with fewer than \<open>min_size\<close>
  elements. Two positions are neighbours when each coordinate differs by at most one
  and at most \<open>connectivity\<close> coordinates differ: in two dimensions, \<open>connectivity = 1\<close>
  (the default) is the neighbourhood of the 4 pixels that share an edge, and
  \<open>connectivity = 2\<close> the neighbourhood of 8.
\<close>

text \<open>The coordinates of position \<open>p\<close> of the buffer of an array (row-major order).\<close>

fun unravel_index :: "nat list \<Rightarrow> nat \<Rightarrow> nat list" where
  "unravel_index [] p = []"
| "unravel_index (d # ds) p = (p div prod_list ds) # unravel_index ds (p mod prod_list ds)"

definition adjacent :: "nat \<Rightarrow> nat list \<Rightarrow> nat list \<Rightarrow> bool" where
  "adjacent connectivity a b =
     (list_all2 (\<lambda>x y. x \<le> y + 1 \<and> y \<le> x + 1) a b \<and>
      (let d = length (filter (\<lambda>(x, y). x \<noteq> y) (zip a b))
       in 0 < d \<and> d \<le> connectivity))"

text \<open>One round of labelling: the foreground neighbours of the positions found so far.\<close>

definition grow :: "nat \<Rightarrow> nat list \<Rightarrow> bool list \<Rightarrow> nat set \<Rightarrow> nat set" where
  "grow connectivity sh bs S =
     S \<union> set (filter (\<lambda>q. bs ! q \<and>
                  (\<exists>p\<in>S. adjacent connectivity (unravel_index sh p) (unravel_index sh q)))
               [0..<length bs])"

text \<open>The component of a set of positions: rounds are repeated until none adds a position.\<close>

function label_component :: "nat \<Rightarrow> nat list \<Rightarrow> bool list \<Rightarrow> nat set \<Rightarrow> nat set" where
  "label_component connectivity sh bs S =
     (let S' = grow connectivity sh bs S
      in if S' = S then S else label_component connectivity sh bs S')"
  by pat_completeness auto
termination
proof (relation "measure (\<lambda>(connectivity, sh, bs, S). card ({..<length bs} - S))")
  show "wf (measure (\<lambda>(connectivity, sh, bs, S). card ({..<length bs} - S)))"
    by simp
next
  fix connectivity :: nat and sh :: "nat list" and bs :: "bool list" and S S' :: "nat set"
  assume S': "S' = grow connectivity sh bs S" and neq: "S' \<noteq> S"
  have sub: "S \<subseteq> S'"
    by (simp add: S' grow_def)
  with neq obtain q where q: "q \<in> S'" "q \<notin> S"
    by blast
  then have "q < length bs"
    by (auto simp: S' grow_def)
  with q sub have "{..<length bs} - S' \<subset> {..<length bs} - S"
    by blast
  then have "card ({..<length bs} - S') < card ({..<length bs} - S)"
    by (intro psubset_card_mono) simp_all
  then show "((connectivity, sh, bs, S'), (connectivity, sh, bs, S))
      \<in> measure (\<lambda>(connectivity, sh, bs, S). card ({..<length bs} - S))"
    by simp
qed

declare label_component.simps [simp del]

definition sk_remove_small_objects :: "ndarray \<Rightarrow> int \<Rightarrow> nat \<Rightarrow> py_error + ndarray" where
  "sk_remove_small_objects ar min_size connectivity =
     (case elems ar of
        Bools bs \<Rightarrow>
          if min_size = 0 then Inr ar
          else Inr (NDArray (shape ar)
                 (Bools (map (\<lambda>p. bs ! p \<and>
                            \<not> int (card (label_component connectivity (shape ar) bs {p})) < min_size)
                         [0..<length bs])))
      | _ \<Rightarrow> Inl (LibraryError ''remove_small_objects: only boolean input is modelled''))"

text \<open>The call of the module names no connectivity: the default of the library applies.\<close>

definition sk_remove_small_objects_default :: "ndarray \<Rightarrow> int \<Rightarrow> py_error + ndarray" where
  "sk_remove_small_objects_default ar min_size = sk_remove_small_objects ar min_size 1"

subsection \<open>\<open>skimage.filters.rank.subtract_mean\<close>\<close>

text \<open>
  \<open>rank.subtract_mean(image, selem)\<close> returns the image subtracted from its local mean.
  The neighbourhood of a pixel is the part of the structuring element that lies inside
  the image when the element is centred at the pixel; the centre of an element of \<open>m\<close>
  rows and \<open>n\<close> columns is at row \<open>m div 2\<close> and column \<open>n div 2\<close>. With \<open>g\<close> the pixel,
  \<open>mean\<close> the sum of the pixels of the neighbourhood and \<open>pop\<close> their number, the result
  is \<open>(g - mean / pop) / 2 + 127\<close>, computed in binary64 and converted to an 8-bit
  unsigned integer: the library halves the difference and shifts it by 127 to keep it
  in the range of the type. Only images of 8-bit unsigned integers in two dimensions are
  modelled; the library converts or rejects the others.
\<close>

definition window :: "nat \<Rightarrow> nat \<Rightarrow> ndarray \<Rightarrow> nat \<Rightarrow> nat list" where
  "window h w selem p =
     (case shape selem of
        [m, n] \<Rightarrow>
          concat (map (\<lambda>i. concat (map (\<lambda>j.
              if mask_of selem ! (i * n + j) \<and>
                 m div 2 \<le> p div w + i \<and> p div w + i - m div 2 < h \<and>
                 n div 2 \<le> p mod w + j \<and> p mod w + j - n div 2 < w
              then [(p div w + i - m div 2) * w + (p mod w + j - n div 2)]
              else []) [0..<n])) [0..<m])
      | _ \<Rightarrow> [])"

definition subtract_mean_kernel :: "u8 list \<Rightarrow> nat list \<Rightarrow> u8 \<Rightarrow> u8" where
  "subtract_mean_kernel xs nb g =
     (let pop = length nb; mean = sum_list (map (\<lambda>q. unat (xs ! q)) nb)
      in if pop = 0 then 0
         else u8_of_f64 (f64_add
                (f64_div (f64_sub (f64_of_u8 g) (f64_div (of_nat mean) (of_nat pop))) 2) 127))"

definition sk_rank_subtract_mean :: "ndarray \<Rightarrow> ndarray \<Rightarrow> py_error + ndarray" where
  "sk_rank_subtract_mean img selem =
     (case shape img of
        [h, w] \<Rightarrow>
          (case elems img of
             UInt8s xs \<Rightarrow>
               Inr (NDArray [h, w]
                 (UInt8s (map (\<lambda>p. subtract_mean_kernel xs (window h w selem p) (xs ! p))
                              [0..<length xs])))
           | _ \<Rightarrow> Inl (LibraryError ''rank.subtract_mean: only uint8 images are modelled''))
      | _ \<Rightarrow> Inl (LibraryError ''rank.subtract_mean: only 2-D images are modelled''))"

section \<open>Notions of the specification\<close>

subsection \<open>The output representation\<close>

definition is_bool :: "ndarray \<Rightarrow> bool" where
  "is_bool a = (case elems a of Bools _ \<Rightarrow> True | _ \<Rightarrow> False)"

definition float_values_in :: "ndarray \<Rightarrow> f64 set \<Rightarrow> bool" where
  "float_values_in a S = (case elems a of Float64s xs \<Rightarrow> set xs \<subseteq> S | _ \<Rightarrow> False)"

definition uint8_values_in :: "ndarray \<Rightarrow> u8 set \<Rightarrow> bool" where
  "uint8_values_in a S = (case elems a of UInt8s xs \<Rightarrow> set xs \<subseteq> S | _ \<Rightarrow> False)"

definition obeys_output_policy :: "string \<Rightarrow> ndarray \<Rightarrow> bool" where
  "obeys_output_policy output_type r =
     ((output_type = ''bool'' \<longrightarrow> is_bool r) \<and>
      (output_type = ''float'' \<longrightarrow> float_values_in r {0, 1}) \<and>
      (output_type = ''uint8'' \<longrightarrow> uint8_values_in r {0, 255}))"

definition returns_bool :: "(py_error + ndarray) \<Rightarrow> bool" where
  "returns_bool res = (case res of Inl _ \<Rightarrow> True | Inr a \<Rightarrow> is_bool a)"

subsection \<open>Pixels and foreground\<close>

text \<open>
  The number at position \<open>i\<close> of the buffer of an array, and whether a mask marks that
  position as foreground: \<open>True\<close>, \<open>1.0\<close> and \<open>255\<close> are foreground, \<open>False\<close>,
  \<open>0.0\<close> and \<open>0\<close> are background.
\<close>

definition pixel :: "ndarray \<Rightarrow> nat \<Rightarrow> rat" where
  "pixel a i = elem_vals (elems a) ! i"

definition is_foreground :: "ndarray \<Rightarrow> nat \<Rightarrow> bool" where
  "is_foreground a i = (pixel a i \<noteq> 0)"

subsection \<open>Complement twice\<close>

definition double_complement :: "ndarray \<Rightarrow> string \<Rightarrow> py_error + ndarray" where
  "double_complement x t = bindE (filter_complement x t) (\<lambda>y. filter_complement y t)"

text \<open>A float image of the domain \<open>[0, 1]\<close>: every element is a binary64 value there.\<close>

definition is_unit_float :: "ndarray \<Rightarrow> bool" where
  "is_unit_float a = (case elems a of
      Float64s xs \<Rightarrow> list_all (\<lambda>v. is_f64 v \<and> 0 \<le> v \<and> v \<le> 1) xs
    | _ \<Rightarrow> False)"

text \<open>A float image whose complement needs no rounding at any element.\<close>

definition exact_float_complement :: "ndarray \<Rightarrow> bool" where
  "exact_float_complement a = (case elems a of
      Float64s xs \<Rightarrow> list_all (\<lambda>v. is_f64 v \<and> is_f64 (1 - v)) xs
    | _ \<Rightarrow> False)"

subsection \<open>Luminance of a pixel\<close>

text \<open>
  The dot product of the first three channels of a pixel with the weights, in binary64:
  each product and each sum is rounded, and the sum starts from zero.
\<close>

definition luminance :: "u8 list \<Rightarrow> f64" where
  "luminance px =
     f64_add (f64_add (f64_add 0
       (f64_mul (f64_of_u8 (px ! 0)) (py_float (2125 / 10000))))
       (f64_mul (f64_of_u8 (px ! 1)) (py_float (7154 / 10000))))
       (f64_mul (f64_of_u8 (px ! 2)) (py_float (721 / 10000)))"

definition uniform_rgb :: "nat \<Rightarrow> nat \<Rightarrow> u8 list \<Rightarrow> rgb_image" where
  "uniform_rgb h w px =
     \<lparr>height = h, width = w, channels = length px, pixels = replicate (h * w) px\<rparr>"

subsection \<open>Connected components of a mask\<close>

text \<open>
  The foreground positions of a mask, joined where a given adjacency holds. The component
  of a position is all that is reachable from it through foreground neighbours.
\<close>

definition fg_edges :: "(nat \<Rightarrow> nat \<Rightarrow> bool) \<Rightarrow> bool list \<Rightarrow> (nat \<times> nat) set" where
  "fg_edges adj bs = {(a, b). a < length bs \<and> b < length bs \<and> bs ! a \<and> bs ! b \<and> adj a b}"

definition connected_component :: "(nat \<Rightarrow> nat \<Rightarrow> bool) \<Rightarrow> bool list \<Rightarrow> nat \<Rightarrow> nat set" where
  "connected_component adj bs p = (fg_edges adj bs)\<^sup>* `` {p}"

text \<open>The adjacency that the library derives from a shape and a connectivity.\<close>

definition sk_adjacency :: "nat \<Rightarrow> nat list \<Rightarrow> nat \<Rightarrow> nat \<Rightarrow> bool" where
  "sk_adjacency connectivity sh p q =
     adjacent connectivity (unravel_index sh p) (unravel_index sh q)"

text \<open>
  In an image of width \<open>w\<close>, position \<open>p\<close> is the pixel of row \<open>p div w\<close> and column
  \<open>p mod w\<close>. A pixel has 4 neighbours that share an edge with it, and 8 neighbours that
  share an edge or a corner.
\<close>

definition neighbours4 :: "nat \<Rightarrow> nat \<Rightarrow> nat \<Rightarrow> bool" where
  "neighbours4 w p q =
     ((p div w = q div w \<and> (p mod w = q mod w + 1 \<or> q mod w = p mod w + 1)) \<or>
      (p mod w = q mod w \<and> (p div w = q div w + 1 \<or> q div w = p div w + 1)))"

definition neighbours8 :: "nat \<Rightarrow> nat \<Rightarrow> nat \<Rightarrow> bool" where
  "neighbours8 w p q =
     ((p div w \<noteq> q div w \<or> p mod w \<noteq> q mod w) \<and>
      p div w \<le> q div w + 1 \<and> q div w \<le> p div w + 1 \<and>
      p mod w \<le> q mod w + 1 \<and> q mod w \<le> p mod w + 1)"

text \<open>
  What the removal of small objects promises for an adjacency: a position is foreground
  in the result exactly when it is foreground in the input and its component has at
  least \<open>min_size\<close> positions.
\<close>

definition keeps_large_components ::
  "(nat \<Rightarrow> nat \<Rightarrow> bool) \<Rightarrow> ndarray \<Rightarrow> int \<Rightarrow> ndarray \<Rightarrow> bool" where
  "keeps_large_components adj np_img min_size r =
     (\<forall>p < arr_size np_img.
        is_foreground r p \<longleftrightarrow>
          (mask_of np_img ! p \<and>
           min_size \<le> int (card (connected_component adj (mask_of np_img) p))))"

subsection \<open>The local mean\<close>

text \<open>
  The arithmetic mean of the pixels of the neighbourhood of position \<open>p\<close>, for an image
  in two dimensions.
\<close>

definition local_mean :: "ndarray \<Rightarrow> ndarray \<Rightarrow> nat \<Rightarrow> rat" where
  "local_mean img selem p =
     (case shape img of
        [h, w] \<Rightarrow> (let nb = window h w selem p
                   in sum_list (map (pixel img) nb) / of_nat (length nb))
      | _ \<Rightarrow> 0)"

text \<open>A mask that marks a pixel exactly when the pixel exceeds its local mean.\<close>

definition marks_above_local_mean :: "ndarray \<Rightarrow> ndarray \<Rightarrow> ndarray \<Rightarrow> bool" where
  "marks_above_local_mean np_img selem r =
     (\<forall>p < arr_size np_img. is_foreground r p \<longleftrightarrow> local_mean np_img selem p < pixel np_img p)"

text \<open>
  The halved difference of a pixel \<open>g\<close> and a mean \<open>m\<close>, shifted by 127, as an 8-bit
  unsigned integer.
\<close>

definition shifted_half_difference :: "rat \<Rightarrow> rat \<Rightarrow> u8" where
  "shifted_half_difference g m =
     u8_of_f64 (f64_add (f64_div (f64_sub g (f64_round m)) 2) 127)"

definition marks_above_shifted_half_difference :: "ndarray \<Rightarrow> ndarray \<Rightarrow> ndarray \<Rightarrow> bool" where
  "marks_above_shifted_half_difference np_img selem r =
     (\<forall>p < arr_size np_img.
        is_foreground r p \<longleftrightarrow>
          f64_of_u8 (shifted_half_difference (pixel np_img p) (local_mean np_img selem p))
            < pixel np_img p)"

section \<open>Concrete inputs\<close>

definition demo_image :: ndarray where
  "demo_image = NDArray [1, 2] (UInt8s [10, 240])"

definition demo_mask_uint8 :: ndarray where
  "demo_mask_uint8 = NDArray [1, 2] (UInt8s [0, 255])"

definition demo_threshold :: "ndarray \<Rightarrow> rat \<Rightarrow> rat \<Rightarrow> py_error + ndarray" where
  "demo_threshold img lo hi = Inr (np_gt_scalar img hi)"

definition demo_canny :: "ndarray \<Rightarrow> rat \<Rightarrow> rat \<Rightarrow> rat \<Rightarrow> py_error + ndarray" where
  "demo_canny img sigma lo hi = Inr (np_gt_scalar img hi)"

definition demo_rank :: "ndarray \<Rightarrow> ndarray \<Rightarrow> py_error + ndarray" where
  "demo_rank img selem = Inr (NDArray (shape img) (UInt8s (replicate (arr_size img) 100)))"

definition demo_disk :: "int \<Rightarrow> py_error + ndarray" where
  "demo_disk r = Inr (NDArray [1, 1] (UInt8s [1]))"

definition demo_otsu :: "ndarray \<Rightarrow> py_error + rat" where
  "demo_otsu img = Inr 100"

definition demo_complement :: ndarray where
  "demo_complement = NDArray [1, 2] (UInt8s [245, 15])"

definition demo_selem :: ndarray where
  "demo_selem = NDArray [1, 1] (UInt8s [1])"

definition demo_thr :: ndarray where
  "demo_thr = NDArray [1, 2] (UInt8s [100, 100])"

definition demo_local_mask :: ndarray where
  "demo_local_mask = NDArray [1, 2] (UInt8s [255, 0])"

definition demo_tenth :: ndarray where
  "demo_tenth = NDArray [1, 1] (Float64s [py_float (1 / 10)])"

definition demo_exact_floats :: ndarray where
  "demo_exact_floats = NDArray [1, 4] (Float64s [0, 1 / 4, 1 / 2, 1])"

definition demo_rgb :: rgb_image where
  "demo_rgb = \<lparr>height = 1, width = 2, channels = 3,
                pixels = [[255, 255, 255], [100, 150, 200]]\<rparr>"

definition demo_collaborators :: collaborators where
  "demo_collaborators =
     \<lparr>import_modules = Inr (),
      get_training_thumb_path = (\<lambda>i. Inr ''thumb.png''),
      open_image = (\<lambda>p. Inr demo_rgb),
      show_image = (\<lambda>a. Inr ())\<rparr>"

definition demo_diagonal :: ndarray where
  "demo_diagonal = NDArray [2, 2] (UInt8s [255, 0, 0, 255])"

definition demo_blobs :: ndarray where
  "demo_blobs = NDArray [2, 3] (UInt8s [1, 1, 0, 0, 0, 7])"

definition demo_blobs_cleaned :: ndarray where
  "demo_blobs_cleaned = NDArray [2, 3] (UInt8s [255, 255, 0, 0, 0, 0])"

definition demo_all_background :: ndarray where
  "demo_all_background = NDArray [2, 2] (Bools [False, False, False, False])"

definition demo_bright :: ndarray where
  "demo_bright = NDArray [1, 2] (UInt8s [200, 200])"

definition demo_all_foreground :: ndarray where
  "demo_all_foreground = NDArray [1, 2] (Bools [True, True])"

definition demo_ones3 :: ndarray where
  "demo_ones3 = NDArray [3, 3] (Float64s [1, 1, 1, 1, 1, 1, 1, 1, 1])"

definition demo_gray :: ndarray where
  "demo_gray = NDArray [1, 2] (UInt8s [10, 250])"

definition demo_gray_marked :: ndarray where
  "demo_gray_marked = NDArray [1, 2] (UInt8s [0, 255])"

section \<open>Basic facts\<close>

lemma bindE_Inl [simp]: "bindE (Inl e) f = Inl e"
  by (simp add: bindE_def)

lemma bindE_Inr [simp]: "bindE (Inr x) f = f x"
  by (simp add: bindE_def)

lemma bindE_eq_Inr: "bindE m f = Inr r \<longleftrightarrow> (\<exists>x. m = Inr x \<and> f x = Inr r)"
  by (cases m) simp_all

lemma report_and_return_Inr: "report_and_return a = Inr r \<Longrightarrow> r = a"
  by (auto simp: report_and_return_def np_info_def split: if_splits)

lemma report_and_return_eq: "report_and_return a = (if arr_size a = 0 then Inl ValueError else Inr a)"
  by (simp add: report_and_return_def np_info_def)

lemma bool_mask_float: "is_bool m \<Longrightarrow> float_values_in (astype_float m) {0, 1}"
  by (auto simp: is_bool_def float_values_in_def astype_float_def f64_of_bool_def split: elems.splits)

lemma bool_mask_uint8: "is_bool m \<Longrightarrow> uint8_values_in (np_mul_int (astype_uint8 m) 255) {0, 255}"
  by (auto simp: is_bool_def uint8_values_in_def astype_uint8_def np_mul_int_def u8_of_bool_def split: elems.splits)

lemma bool_mask_uint8_hyst: "is_bool m \<Longrightarrow> uint8_values_in (astype_uint8 (np_mul_int m 255)) {0, 255}"
  by (auto simp: is_bool_def uint8_values_in_def astype_uint8_def np_mul_int_def u8_of_bool_def
      split: elems.splits if_splits)

lemma is_bool_gt_scalar [simp]: "is_bool (np_gt_scalar a t)"
  by (simp add: is_bool_def np_gt_scalar_def)

lemma is_bool_np_le: "np_le a b = Inr m \<Longrightarrow> is_bool m"
  by (auto simp: is_bool_def np_le_def split: if_splits)

lemma is_bool_np_gt: "np_gt a b = Inr m \<Longrightarrow> is_bool m"
  by (auto simp: is_bool_def np_gt_def split: if_splits)

lemma policy_mask:
  "is_bool m \<Longrightarrow>
   obeys_output_policy ot (if ot = ''bool'' then m else if ot = ''float'' then astype_float m
                           else np_mul_int (astype_uint8 m) 255)"
  by (simp add: obeys_output_policy_def bool_mask_float bool_mask_uint8)

lemma policy_mask_hyst:
  "is_bool m \<Longrightarrow>
   obeys_output_policy ot (if ot = ''bool'' then m else if ot = ''float'' then astype_float m
                           else astype_uint8 (np_mul_int m 255))"
  by (simp add: obeys_output_policy_def bool_mask_float bool_mask_uint8_hyst)

lemma hysteresis_policy:
  assumes "returns_bool (apply_hysteresis_threshold np_img low high)"
    and "filter_hysteresis_threshold apply_hysteresis_threshold np_img low high ot = Inr r"
  shows "obeys_output_policy ot r"
  using assms
  by (auto simp: filter_hysteresis_threshold_def returns_bool_def bindE_eq_Inr Let_def
      dest!: report_and_return_Inr intro: policy_mask_hyst)

lemma otsu_policy:
  assumes "filter_otsu_threshold threshold_otsu np_img ot = Inr r"
  shows "obeys_output_policy ot r"
  using assms
  by (auto simp: filter_otsu_threshold_def bindE_eq_Inr Let_def
      dest!: report_and_return_Inr intro: policy_mask)

lemma local_otsu_policy:
  assumes "filter_local_otsu_threshold rank_otsu disk np_img disk_size ot = Inr r"
  shows "obeys_output_policy ot r"
  using assms
  by (auto simp: filter_local_otsu_threshold_def bindE_eq_Inr Let_def
      dest!: report_and_return_Inr is_bool_np_le intro: policy_mask)

lemma entropy_policy:
  assumes "filter_entropy rank_entropy np_img neighborhood threshold ot = Inr r"
  shows "obeys_output_policy ot r"
  using assms
  by (auto simp: filter_entropy_def bindE_eq_Inr Let_def
      dest!: report_and_return_Inr intro: policy_mask)

lemma canny_policy:
  assumes "returns_bool (canny np_img sigma lo hi)"
    and "filter_canny canny np_img sigma lo hi ot = Inr r"
  shows "obeys_output_policy ot r"
  using assms
  by (auto simp: filter_canny_def returns_bool_def bindE_eq_Inr Let_def
      dest!: report_and_return_Inr intro: policy_mask)

lemma arr_size_NDArray [simp]: "arr_size (NDArray sh es) = elems_len es"
  by (simp add: arr_size_def)

lemma elems_len_simps [simp]:
  "elems_len (Bools bs) = length bs"
  "elems_len (UInt8s us) = length us"
  "elems_len (Float64s fs) = length fs"
  by (simp_all add: elems_len_def)

lemma foreground_of_mask:
  assumes "i < length bs"
  shows "is_foreground (if ot = ''bool'' then NDArray sh (Bools bs)
                        else if ot = ''float'' then astype_float (NDArray sh (Bools bs))
                        else np_mul_int (astype_uint8 (NDArray sh (Bools bs))) 255) i = bs ! i"
  using assms
  by (simp add: is_foreground_def pixel_def elem_vals_def astype_float_def astype_uint8_def
      np_mul_int_def f64_of_bool_def f64_of_u8_def u8_of_bool_def)

lemma length_elem_vals [simp]: "length (elem_vals es) = elems_len es"
  by (simp add: elem_vals_def elems_len_def split: elems.splits)

section \<open>The output representation of the threshold filters\<close>

lemma demo_hyst: "filter_hysteresis_threshold demo_threshold demo_image 50 100 ''uint8'' = Inr demo_mask_uint8"
  by (simp add: filter_hysteresis_threshold_def demo_threshold_def demo_image_def demo_mask_uint8_def
      np_gt_scalar_def elem_vals_def f64_of_u8_def np_mul_int_def astype_uint8_def u8_of_bool_def
      report_and_return_eq arr_size_def elems_len_def)

text \<open>
  C1. For each of the five threshold filters and every input image, a call that returns
  gives an array of booleans for \<open>output_type = "bool"\<close>, an array of floats that are all
  \<open>0.0\<close> or \<open>1.0\<close> for \<open>"float"\<close>, and an array of 8-bit unsigned integers that are
  all \<open>0\<close> or \<open>255\<close> for \<open>"uint8"\<close>. The two filters that hand the result of the library
  on without a comparison of their own (hysteresis, Canny) rely on the library returning
  a boolean array, as scikit-image documents.
\<close>

theorem threshold_family_output_policy:
  assumes "returns_bool (apply_hysteresis_threshold np_img low high)"
    and "returns_bool (canny np_img sigma low_threshold high_threshold)"
  shows "(filter_hysteresis_threshold apply_hysteresis_threshold np_img low high output_type = Inr r1
            \<longrightarrow> obeys_output_policy output_type r1) \<and>
         (filter_otsu_threshold threshold_otsu np_img output_type = Inr r2
            \<longrightarrow> obeys_output_policy output_type r2) \<and>
         (filter_local_otsu_threshold rank_otsu disk np_img disk_size output_type = Inr r3
            \<longrightarrow> obeys_output_policy output_type r3) \<and>
         (filter_entropy rank_entropy np_img neighborhood threshold output_type = Inr r4
            \<longrightarrow> obeys_output_policy output_type r4) \<and>
         (filter_canny canny np_img sigma low_threshold high_threshold output_type = Inr r5
            \<longrightarrow> obeys_output_policy output_type r5)"
  using assms
  by (intro conjI impI)
    (erule (1) hysteresis_policy, erule otsu_policy, erule local_otsu_policy,
     erule entropy_policy, erule (1) canny_policy)

theorem threshold_family_output_policy_witness:
  "returns_bool (demo_threshold demo_image 50 100) \<and>
   returns_bool (demo_canny demo_image 1 0 25) \<and>
   filter_hysteresis_threshold demo_threshold demo_image 50 100 ''uint8'' = Inr demo_mask_uint8 \<and>
   obeys_output_policy ''uint8'' demo_mask_uint8"
proof -
  have h: "returns_bool (demo_threshold demo_image 50 100)"
    by (simp add: returns_bool_def demo_threshold_def)
  have c: "returns_bool (demo_canny demo_image 1 0 25)"
    by (simp add: returns_bool_def demo_canny_def)
  from threshold_family_output_policy
    [where apply_hysteresis_threshold = demo_threshold and canny = demo_canny
       and np_img = demo_image and low = 50 and high = 100 and sigma = 1
       and low_threshold = 0 and high_threshold = 25
       and output_type = "''uint8''" and ?r1.0 = demo_mask_uint8, OF h c]
  show ?thesis using h c demo_hyst by simp
qed

section \<open>Unrecognised output types\<close>

lemma demo_complement_uint8: "filter_complement demo_image ''uint8'' = Inr demo_complement"
  by (simp add: filter_complement_def demo_image_def demo_complement_def np_rsub_int_def
      report_and_return_eq arr_size_def elems_len_def)

text \<open>
  C2. For every function of the module that takes an \<open>output_type\<close> and every string
  other than \<open>"bool"\<close> and \<open>"float"\<close>, the call gives exactly what the call with
  \<open>"uint8"\<close> gives: the same array, or the same exception where that call raises. No
  string is rejected.
\<close>

theorem unrecognized_output_type_is_uint8:
  assumes "output_type \<noteq> ''bool''" and "output_type \<noteq> ''float''"
  shows
    "filter_rgb_to_grayscale rgb output_type = filter_rgb_to_grayscale rgb ''uint8'' \<and>
     filter_complement np_img output_type = filter_complement np_img ''uint8'' \<and>
     filter_hysteresis_threshold apply_hysteresis_threshold np_img low high output_type =
       filter_hysteresis_threshold apply_hysteresis_threshold np_img low high ''uint8'' \<and>
     filter_otsu_threshold threshold_otsu np_img output_type =
       filter_otsu_threshold threshold_otsu np_img ''uint8'' \<and>
     filter_local_otsu_threshold rank_otsu disk np_img disk_size output_type =
       filter_local_otsu_threshold rank_otsu disk np_img disk_size ''uint8'' \<and>
     filter_entropy rank_entropy np_img neighborhood threshold output_type =
       filter_entropy rank_entropy np_img neighborhood threshold ''uint8'' \<and>
     filter_canny canny np_img sigma low_threshold high_threshold output_type =
       filter_canny canny np_img sigma low_threshold high_threshold ''uint8'' \<and>
     filter_remove_small_objects remove_small_objects np_img min_size output_type =
       filter_remove_small_objects remove_small_objects np_img min_size ''uint8'' \<and>
     filter_histogram_equalization equalize_hist np_img nbins output_type =
       filter_histogram_equalization equalize_hist np_img nbins ''uint8'' \<and>
     filter_adaptive_equalization equalize_adapthist np_img nbins clip_limit output_type =
       filter_adaptive_equalization equalize_adapthist np_img nbins clip_limit ''uint8'' \<and>
     filter_autolevel rank_autolevel disk np_img disk_size output_type =
       filter_autolevel rank_autolevel disk np_img disk_size ''uint8'' \<and>
     filter_subtract_mean rank_subtract_mean np_img neigh output_type =
       filter_subtract_mean rank_subtract_mean np_img neigh ''uint8'' \<and>
     filter_modal rank_modal np_img neigh output_type =
       filter_modal rank_modal np_img neigh ''uint8''"
  using assms
  by (simp add: filter_rgb_to_grayscale_def filter_complement_def filter_hysteresis_threshold_def
      filter_otsu_threshold_def filter_local_otsu_threshold_def filter_entropy_def
      filter_canny_def filter_remove_small_objects_def filter_histogram_equalization_def
      filter_adaptive_equalization_def filter_autolevel_def filter_subtract_mean_def
      filter_modal_def)

theorem unrecognized_output_type_is_uint8_witness:
  "''uint16'' \<noteq> ''bool'' \<and> ''uint16'' \<noteq> ''float'' \<and>
   filter_complement demo_image ''uint16'' = Inr demo_complement"
proof -
  have a: "''uint16'' \<noteq> ''bool''" and b: "''uint16'' \<noteq> ''float''"
    by simp_all
  have "filter_complement demo_image ''uint16'' = filter_complement demo_image ''uint8''"
    by (rule unrecognized_output_type_is_uint8 [OF a b, THEN conjunct2, THEN conjunct1])
  then show ?thesis
    by (simp add: demo_complement_uint8)
qed

section \<open>The two Otsu filters\<close>

lemma local_otsu_foreground:
  assumes "wf_array np_img" and "wf_array local_thr" and "i < arr_size np_img"
    and "disk disk_size = Inr selem" and "rank_otsu np_img selem = Inr local_thr"
    and "filter_local_otsu_threshold rank_otsu disk np_img disk_size ot = Inr r"
  shows "is_foreground r i \<longleftrightarrow> pixel np_img i \<le> pixel local_thr i"
proof -
  from assms(4-6) obtain m where m: "np_le np_img local_thr = Inr m"
    and r: "r = (if ot = ''bool'' then m else if ot = ''float'' then astype_float m
                 else np_mul_int (astype_uint8 m) 255)"
    by (auto simp: filter_local_otsu_threshold_def bindE_eq_Inr Let_def
        dest!: report_and_return_Inr)
  from m have sh: "shape np_img = shape local_thr"
    and m_eq: "m = NDArray (shape np_img)
        (Bools (map2 (\<lambda>x y. x \<le> y) (elem_vals (elems np_img)) (elem_vals (elems local_thr))))"
    by (auto simp: np_le_def split: if_splits)
  from sh assms(1,2) have sz: "arr_size local_thr = arr_size np_img"
    by (simp add: wf_array_def)
  with assms(3) have i: "i < length (map2 (\<lambda>x y. x \<le> y) (elem_vals (elems np_img))
       (elem_vals (elems local_thr)))"
    by (simp add: arr_size_def)
  show ?thesis
    unfolding r m_eq foreground_of_mask [OF i]
    using i by (simp add: pixel_def)
qed

lemma otsu_foreground:
  assumes "i < arr_size np_img"
    and "threshold_otsu np_img = Inr t"
    and "filter_otsu_threshold threshold_otsu np_img ot = Inr r"
  shows "is_foreground r i \<longleftrightarrow> t < pixel np_img i"
proof -
  from assms(2,3) have r: "r = (if ot = ''bool'' then np_gt_scalar np_img t
        else if ot = ''float'' then astype_float (np_gt_scalar np_img t)
        else np_mul_int (astype_uint8 (np_gt_scalar np_img t)) 255)"
    by (auto simp: filter_otsu_threshold_def bindE_eq_Inr Let_def dest!: report_and_return_Inr)
  from assms(1) have i: "i < length (map (\<lambda>x. t < x) (elem_vals (elems np_img)))"
    by (simp add: arr_size_def)
  show ?thesis
    unfolding r np_gt_scalar_def foreground_of_mask [OF i]
    using i by (simp add: pixel_def)
qed

lemma demo_rank_image: "demo_rank demo_image selem = Inr demo_thr"
  by (simp add: demo_rank_def demo_image_def demo_thr_def arr_size_def elems_len_def
      numeral_2_eq_2)

lemma demo_local_otsu:
  "filter_local_otsu_threshold demo_rank demo_disk demo_image 3 ''uint8'' = Inr demo_local_mask"
  by (simp add: filter_local_otsu_threshold_def demo_rank_image demo_disk_def)
    (simp add: demo_image_def demo_thr_def demo_local_mask_def np_le_def elem_vals_def
      f64_of_u8_def np_mul_int_def astype_uint8_def u8_of_bool_def report_and_return_eq
      arr_size_def elems_len_def)

lemma demo_global_otsu:
  "filter_otsu_threshold demo_otsu demo_image ''uint8'' = Inr demo_mask_uint8"
  by (simp add: filter_otsu_threshold_def demo_otsu_def demo_image_def demo_mask_uint8_def
      np_gt_scalar_def elem_vals_def f64_of_u8_def np_mul_int_def astype_uint8_def
      u8_of_bool_def report_and_return_eq arr_size_def elems_len_def)

text \<open>
  C3. Where the local Otsu filter returns, it marks a pixel as foreground exactly when
  the pixel is less than or equal to the threshold that the rank filter computed for
  that pixel over \<open>disk(disk_size)\<close>; where the global Otsu filter returns, it marks a
  pixel exactly when the pixel is greater than the one threshold of the image. The two
  rules are opposite: at a pixel whose local threshold is the global one, the local
  filter marks it exactly when the global filter does not.
\<close>

theorem otsu_comparison_directions:
  assumes "wf_array np_img" and "i < arr_size np_img"
  shows
    "(disk disk_size = Inr selem \<and> rank_otsu np_img selem = Inr local_thr \<and> wf_array local_thr \<and>
      filter_local_otsu_threshold rank_otsu disk np_img disk_size output_type = Inr r_local
        \<longrightarrow> (is_foreground r_local i \<longleftrightarrow> pixel np_img i \<le> pixel local_thr i)) \<and>
     (threshold_otsu np_img = Inr t \<and>
      filter_otsu_threshold threshold_otsu np_img output_type' = Inr r_global
        \<longrightarrow> (is_foreground r_global i \<longleftrightarrow> t < pixel np_img i)) \<and>
     (disk disk_size = Inr selem \<and> rank_otsu np_img selem = Inr local_thr \<and> wf_array local_thr \<and>
      filter_local_otsu_threshold rank_otsu disk np_img disk_size output_type = Inr r_local \<and>
      threshold_otsu np_img = Inr t \<and>
      filter_otsu_threshold threshold_otsu np_img output_type' = Inr r_global \<and>
      pixel local_thr i = t
        \<longrightarrow> (is_foreground r_local i \<longleftrightarrow> \<not> is_foreground r_global i))"
proof (intro conjI impI)
  assume "disk disk_size = Inr selem \<and> rank_otsu np_img selem = Inr local_thr \<and> wf_array local_thr \<and>
      filter_local_otsu_threshold rank_otsu disk np_img disk_size output_type = Inr r_local"
  then show "is_foreground r_local i \<longleftrightarrow> pixel np_img i \<le> pixel local_thr i"
    using assms local_otsu_foreground by blast
next
  assume "threshold_otsu np_img = Inr t \<and>
      filter_otsu_threshold threshold_otsu np_img output_type' = Inr r_global"
  then show "is_foreground r_global i \<longleftrightarrow> t < pixel np_img i"
    using assms otsu_foreground by blast
next
  assume a: "disk disk_size = Inr selem \<and> rank_otsu np_img selem = Inr local_thr \<and> wf_array local_thr \<and>
      filter_local_otsu_threshold rank_otsu disk np_img disk_size output_type = Inr r_local \<and>
      threshold_otsu np_img = Inr t \<and>
      filter_otsu_threshold threshold_otsu np_img output_type' = Inr r_global \<and>
      pixel local_thr i = t"
  then have "is_foreground r_local i \<longleftrightarrow> pixel np_img i \<le> t"
    using assms local_otsu_foreground by blast
  moreover from a have "is_foreground r_global i \<longleftrightarrow> t < pixel np_img i"
    using assms otsu_foreground by blast
  ultimately show "is_foreground r_local i \<longleftrightarrow> \<not> is_foreground r_global i"
    by auto
qed

theorem otsu_comparison_directions_witness:
  "wf_array demo_image \<and> 0 < arr_size demo_image \<and>
   demo_disk 3 = Inr demo_selem \<and> demo_rank demo_image demo_selem = Inr demo_thr \<and>
   wf_array demo_thr \<and>
   filter_local_otsu_threshold demo_rank demo_disk demo_image 3 ''uint8'' = Inr demo_local_mask \<and>
   demo_otsu demo_image = Inr 100 \<and>
   filter_otsu_threshold demo_otsu demo_image ''uint8'' = Inr demo_mask_uint8 \<and>
   pixel demo_thr 0 = 100 \<and>
   (is_foreground demo_local_mask 0 \<longleftrightarrow> pixel demo_image 0 \<le> pixel demo_thr 0) \<and>
   (is_foreground demo_mask_uint8 0 \<longleftrightarrow> 100 < pixel demo_image 0) \<and>
   (is_foreground demo_local_mask 0 \<longleftrightarrow> \<not> is_foreground demo_mask_uint8 0)"
proof -
  have w: "wf_array demo_image" and w': "wf_array demo_thr"
    by (simp_all add: wf_array_def demo_image_def demo_thr_def arr_size_def elems_len_def)
  have i: "0 < arr_size demo_image"
    by (simp add: demo_image_def arr_size_def elems_len_def)
  have d: "demo_disk 3 = Inr demo_selem"
    by (simp add: demo_disk_def demo_selem_def)
  have r: "demo_rank demo_image demo_selem = Inr demo_thr"
    by (rule demo_rank_image)
  have t: "demo_otsu demo_image = Inr 100"
    by (simp add: demo_otsu_def)
  have p: "pixel demo_thr 0 = 100"
    by (simp add: pixel_def demo_thr_def elem_vals_def f64_of_u8_def)
  note inst = otsu_comparison_directions
    [OF w i, where disk = demo_disk and disk_size = 3 and selem = demo_selem
       and rank_otsu = demo_rank and local_thr = demo_thr
       and output_type = "''uint8''" and r_local = demo_local_mask
       and threshold_otsu = demo_otsu and t = 100
       and output_type' = "''uint8''" and r_global = demo_mask_uint8]
  have a: "is_foreground demo_local_mask 0 \<longleftrightarrow> pixel demo_image 0 \<le> pixel demo_thr 0"
    using inst [THEN conjunct1] d r w' demo_local_otsu by blast
  have b: "is_foreground demo_mask_uint8 0 \<longleftrightarrow> 100 < pixel demo_image 0"
    using inst [THEN conjunct2, THEN conjunct1] t demo_global_otsu by blast
  have c: "is_foreground demo_local_mask 0 \<longleftrightarrow> \<not> is_foreground demo_mask_uint8 0"
    using inst [THEN conjunct2, THEN conjunct2] d r w' demo_local_otsu t demo_global_otsu p
    by blast
  show ?thesis
    using w w' i d r t p a b c demo_local_otsu demo_global_otsu by blast
qed

section \<open>The complement, twice\<close>

lemma complement_uint8_twice:
  assumes "is_uint8 x" and "0 < arr_size x"
  shows "double_complement x ''uint8'' = Inr x"
proof -
  from assms(1) obtain sh xs where x: "x = NDArray sh (UInt8s xs)"
    by (cases x) (auto simp: is_uint8_def split: elems.splits)
  have "map ((\<lambda>v. 255 - v) \<circ> (\<lambda>v. 255 - v)) xs = xs"
    by (simp add: comp_def)
  with assms(2) show ?thesis
    by (simp add: x double_complement_def filter_complement_def np_rsub_int_def
        report_and_return_eq)
qed

lemma f64_sub_exact_twice:
  assumes "is_f64 v" and "is_f64 (1 - v)"
  shows "f64_sub 1 (f64_sub 1 v) = v"
  using assms by (simp add: f64_sub_def is_f64_def)

lemma complement_float_twice:
  assumes "exact_float_complement x" and "0 < arr_size x"
  shows "double_complement x ''float'' = Inr x"
proof -
  from assms(1) obtain sh xs where x: "x = NDArray sh (Float64s xs)"
    and ex: "list_all (\<lambda>v. is_f64 v \<and> is_f64 (1 - v)) xs"
    by (cases x) (auto simp: exact_float_complement_def split: elems.splits)
  from ex have "map (\<lambda>v. f64_sub 1 (f64_sub 1 v)) xs = xs"
    by (induction xs) (simp_all add: f64_sub_exact_twice)
  with assms(2) show ?thesis
    by (simp add: x double_complement_def filter_complement_def np_rsub_float_def
        report_and_return_eq comp_def)
qed

lemma exact_floats_ok: "exact_float_complement demo_exact_floats"
  by code_simp

lemma tenth_unit: "is_unit_float demo_tenth"
  by code_simp

lemma tenth_twice:
  "double_complement demo_tenth ''float'' =
     Inr (NDArray [1, 1] (Float64s [900719925474099 / 9007199254740992]))"
  by code_simp

lemma tenth_value: "py_float (1 / 10) = 3602879701896397 / 36028797018963968"
  by code_simp

text \<open>
  C4 (as amended). For every image of 8-bit unsigned integers with at least one element,
  the complement with \<open>"uint8"\<close> applied twice gives the image back. For a float image
  with at least one element, the complement with \<open>"float"\<close> applied twice gives the
  image back when \<open>1.0 - v\<close> is a binary64 value for every element \<open>v\<close>, so that
  neither subtraction rounds (as for 0.0, 0.25, 0.5 and 1.0).

  As stated for every float image of the domain \<open>[0, 1]\<close> the claim fails: for the
  element 0.1 the two subtractions give 0.09999999999999998.
\<close>

theorem complement_twice:
  "(is_uint8 x \<and> 0 < arr_size x \<longrightarrow> double_complement x ''uint8'' = Inr x) \<and>
   (exact_float_complement y \<and> 0 < arr_size y \<longrightarrow> double_complement y ''float'' = Inr y)"
  using complement_uint8_twice complement_float_twice by blast

theorem complement_twice_witness:
  "is_uint8 demo_image \<and> 0 < arr_size demo_image \<and>
   double_complement demo_image ''uint8'' = Inr demo_image \<and>
   exact_float_complement demo_exact_floats \<and> 0 < arr_size demo_exact_floats \<and>
   double_complement demo_exact_floats ''float'' = Inr demo_exact_floats"
proof -
  have u: "is_uint8 demo_image" and s: "0 < arr_size demo_image"
    by (simp_all add: is_uint8_def demo_image_def)
  have s': "0 < arr_size demo_exact_floats"
    by (simp add: demo_exact_floats_def)
  note inst = complement_twice [where x = demo_image and y = demo_exact_floats]
  have a: "double_complement demo_image ''uint8'' = Inr demo_image"
    using inst [THEN conjunct1] u s by blast
  have b: "double_complement demo_exact_floats ''float'' = Inr demo_exact_floats"
    using inst [THEN conjunct2] exact_floats_ok s' by blast
  show ?thesis
    using u s s' a b exact_floats_ok by blast
qed

theorem complement_twice_float_counterexample:
  "is_unit_float demo_tenth \<and> 0 < arr_size demo_tenth \<and>
   double_complement demo_tenth ''float'' \<noteq> Inr demo_tenth"
proof -
  have "double_complement demo_tenth ''float'' \<noteq> Inr demo_tenth"
  proof
    assume "double_complement demo_tenth ''float'' = Inr demo_tenth"
    then have "NDArray [1, 1] (Float64s [900719925474099 / 9007199254740992]) = demo_tenth"
      by (simp add: tenth_twice)
    then show False
      by (simp add: demo_tenth_def tenth_value)
  qed
  moreover have "0 < arr_size demo_tenth"
    by (simp add: demo_tenth_def)
  ultimately show ?thesis
    using tenth_unit by blast
qed

section \<open>The grayscale\<close>

lemma np_dot_three:
  "np_dot (map f64_of_u8 (take 3 (a # b # c # rest))) gray_weights = luminance (a # b # c # rest)"
  by (simp add: np_dot_def gray_weights_def luminance_def numeral_3_eq_3)

lemma np_dot_luminance:
  assumes "3 \<le> length px"
  shows "np_dot (map f64_of_u8 (take 3 px)) gray_weights = luminance px"
proof -
  from assms obtain a b c rest where "px = a # b # c # rest"
    by (cases px; cases "tl px"; cases "tl (tl px)") auto
  then show ?thesis
    by (simp only: np_dot_three)
qed

lemma map_np_dot_luminance:
  assumes "list_all (\<lambda>px. length px = c) pxs" and "3 \<le> c"
  shows "map (\<lambda>px. np_dot (map f64_of_u8 (take 3 px)) gray_weights) pxs = map luminance pxs"
  using assms by (induction pxs) (simp_all add: np_dot_luminance)

lemma grayscale_float:
  assumes "wf_rgb img" and "3 \<le> channels img" and "0 < height img * width img"
  shows "filter_rgb_to_grayscale img ''float'' =
           Inr (NDArray [height img, width img] (Float64s (map luminance (pixels img))))"
  using assms
  by (simp add: filter_rgb_to_grayscale_def wf_rgb_def report_and_return_eq
      map_np_dot_luminance [where c = "channels img"])

lemma grayscale_uint8:
  assumes "wf_rgb img" and "3 \<le> channels img" and "0 < height img * width img"
    and "output_type \<noteq> ''float''"
  shows "filter_rgb_to_grayscale img output_type =
           Inr (NDArray [height img, width img]
             (UInt8s (map (\<lambda>px. word_of_int (trunc (luminance px))) (pixels img))))"
  using assms
  by (simp add: filter_rgb_to_grayscale_def wf_rgb_def report_and_return_eq astype_uint8_def
      map_np_dot_luminance [where c = "channels img"] u8_of_f64_def comp_def)

lemma wf_uniform_rgb [simp]: "wf_rgb (uniform_rgb h w px)"
  by (simp add: wf_rgb_def uniform_rgb_def list_all_length)

lemma uniform_rgb_sel [simp]:
  "height (uniform_rgb h w px) = h" "width (uniform_rgb h w px) = w"
  "channels (uniform_rgb h w px) = length px" "pixels (uniform_rgb h w px) = replicate (h * w) px"
  by (simp_all add: uniform_rgb_def)

lemma luminance_white: "luminance [255, 255, 255] = 255 + 1 / 2 ^ 45"
  by code_simp

lemma trunc_white: "trunc (255 + 1 / 2 ^ 45) = 255"
  by code_simp

lemma luminance_white_uint8: "(word_of_int (trunc (luminance [255, 255, 255])) :: u8) = 255"
  by (simp only: luminance_white trunc_white) simp

lemma luminance_example_value: "luminance [100, 150, 200] = 5030661521261199 / 35184372088832"
  by code_simp

lemma py_float_142_98: "py_float (14298 / 100) = 5030661521261199 / 35184372088832"
  by code_simp

lemma luminance_example: "luminance [100, 150, 200] = py_float (14298 / 100)"
  by (simp only: luminance_example_value py_float_142_98)

lemma trunc_example: "trunc (5030661521261199 / 35184372088832) = 142"
  by code_simp

lemma luminance_example_uint8: "(word_of_int (trunc (luminance [100, 150, 200])) :: u8) = 142"
  by (simp only: luminance_example_value trunc_example) simp

text \<open>
  The library may add the three products in another order, or fuse a product with a sum:
  for the white pixel every such order gives the same float.
\<close>

lemma luminance_white_any_order:
  "f64_add (f64_add (f64_mul 255 (py_float (2125 / 10000))) (f64_mul 255 (py_float (721 / 10000))))
     (f64_mul 255 (py_float (7154 / 10000))) = 255 + 1 / 2 ^ 45 \<and>
   f64_add (f64_add (f64_mul 255 (py_float (7154 / 10000))) (f64_mul 255 (py_float (721 / 10000))))
     (f64_mul 255 (py_float (2125 / 10000))) = 255 + 1 / 2 ^ 45 \<and>
   f64_round (255 * py_float (721 / 10000) +
     f64_round (255 * py_float (7154 / 10000) + f64_round (255 * py_float (2125 / 10000))))
     = 255 + 1 / 2 ^ 45"
  by code_simp

text \<open>
  C6. The grayscale of an RGB image in which every pixel is \<open>(255, 255, 255)\<close>, with
  \<open>output_type = "uint8"\<close>, is 255 at every pixel (for an image with at least one
  pixel; the binary64 sum is \<open>255 + 2^-45\<close>, which truncates to 255).
\<close>

theorem grayscale_white_uint8:
  assumes "0 < h" and "0 < w"
  shows "filter_rgb_to_grayscale (uniform_rgb h w [255, 255, 255]) ''uint8'' =
           Inr (NDArray [h, w] (UInt8s (replicate (h * w) 255)))"
  using assms
  by (simp add: grayscale_uint8 luminance_white_uint8)

theorem grayscale_white_uint8_witness:
  "(0::nat) < 2 \<and> (0::nat) < 3 \<and>
   filter_rgb_to_grayscale (uniform_rgb 2 3 [255, 255, 255]) ''uint8'' =
     Inr (NDArray [2, 3] (UInt8s [255, 255, 255, 255, 255, 255]))"
proof -
  have a: "(0::nat) < 2" and b: "(0::nat) < 3"
    by simp_all
  have "replicate (2 * 3) (255 :: u8) = [255, 255, 255, 255, 255, 255]"
    by (simp add: numeral_eq_Suc)
  with grayscale_white_uint8 [OF a b] show ?thesis
    by simp
qed

text \<open>
  C5 (as amended). For every pixel the grayscale is the binary64 dot product of the first
  three channels with the weights \<open>[0.2125, 0.7154, 0.0721]\<close>; \<open>"float"\<close> keeps that
  value, every other output type truncates it to an 8-bit unsigned integer. On an image
  in which every pixel is \<open>(100, 150, 200)\<close> the float result is the binary64 value of
  \<open>142.98\<close> at every pixel (and 142 after truncation), since
  \<open>0.2125 * 100 + 0.7154 * 150 + 0.0721 * 200 = 142.98\<close>, not \<open>135.395\<close>.
\<close>

theorem grayscale_is_weighted_sum:
  assumes "wf_rgb img" and "3 \<le> channels img" and "0 < height img * width img"
    and "0 < h" and "0 < w"
  shows
    "filter_rgb_to_grayscale img ''float'' =
       Inr (NDArray [height img, width img] (Float64s (map luminance (pixels img)))) \<and>
     (output_type \<noteq> ''float'' \<longrightarrow>
       filter_rgb_to_grayscale img output_type =
         Inr (NDArray [height img, width img]
           (UInt8s (map (\<lambda>px. word_of_int (trunc (luminance px))) (pixels img))))) \<and>
     filter_rgb_to_grayscale (uniform_rgb h w [100, 150, 200]) ''float'' =
       Inr (NDArray [h, w] (Float64s (replicate (h * w) (py_float (14298 / 100))))) \<and>
     filter_rgb_to_grayscale (uniform_rgb h w [100, 150, 200]) ''uint8'' =
       Inr (NDArray [h, w] (UInt8s (replicate (h * w) 142)))"
  using assms
  by (simp add: grayscale_float grayscale_uint8 luminance_example_uint8)
    (simp add: luminance_example)

theorem grayscale_is_weighted_sum_witness:
  "wf_rgb demo_rgb \<and> 3 \<le> channels demo_rgb \<and> 0 < height demo_rgb * width demo_rgb \<and>
   (0::nat) < 1 \<and> ''uint8'' \<noteq> ''float'' \<and>
   filter_rgb_to_grayscale demo_rgb ''float'' =
     Inr (NDArray [1, 2] (Float64s [255 + 1 / 2 ^ 45, py_float (14298 / 100)])) \<and>
   filter_rgb_to_grayscale demo_rgb ''uint8'' = Inr (NDArray [1, 2] (UInt8s [255, 142])) \<and>
   filter_rgb_to_grayscale (uniform_rgb 1 1 [100, 150, 200]) ''float'' =
     Inr (NDArray [1, 1] (Float64s [py_float (14298 / 100)]))"
proof -
  have a: "wf_rgb demo_rgb" and b: "3 \<le> channels demo_rgb"
    and c: "0 < height demo_rgb * width demo_rgb"
    by (simp_all add: demo_rgb_def wf_rgb_def)
  have d: "(0::nat) < 1" and e: "''uint8'' \<noteq> ''float''"
    by simp_all
  note inst = grayscale_is_weighted_sum [OF a b c d d, where output_type = "''uint8''"]
  have f: "filter_rgb_to_grayscale demo_rgb ''float'' =
     Inr (NDArray [1, 2] (Float64s [255 + 1 / 2 ^ 45, py_float (14298 / 100)]))"
    using inst [THEN conjunct1]
    by (simp add: demo_rgb_def luminance_white luminance_example)
  have g: "filter_rgb_to_grayscale demo_rgb ''uint8'' = Inr (NDArray [1, 2] (UInt8s [255, 142]))"
    using inst [THEN conjunct2, THEN conjunct1] e
    by (simp add: demo_rgb_def luminance_white_uint8 luminance_example_uint8)
  have h: "filter_rgb_to_grayscale (uniform_rgb 1 1 [100, 150, 200]) ''float'' =
     Inr (NDArray [1, 1] (Float64s [py_float (14298 / 100)]))"
    using inst [THEN conjunct2, THEN conjunct2, THEN conjunct1] by simp
  show ?thesis
    using a b c d e f g h by blast
qed

theorem grayscale_example_counterexample:
  "filter_rgb_to_grayscale (uniform_rgb 1 1 [100, 150, 200]) ''float'' =
     Inr (NDArray [1, 1] (Float64s [5030661521261199 / 35184372088832])) \<and>
   (5030661521261199 / 35184372088832 :: rat) \<noteq> 135395 / 1000 \<and>
   filter_rgb_to_grayscale (uniform_rgb 1 1 [100, 150, 200]) ''float'' \<noteq>
     Inr (NDArray [1, 1] (Float64s [py_float (135395 / 1000)])) \<and>
   (2125 / 10000 * 100 + 7154 / 10000 * 150 + 721 / 10000 * 200 :: rat) = 14298 / 100"
proof -
  have v: "filter_rgb_to_grayscale (uniform_rgb 1 1 [100, 150, 200]) ''float'' =
     Inr (NDArray [1, 1] (Float64s [5030661521261199 / 35184372088832]))"
    by (simp add: grayscale_float luminance_example_value)
  have p: "py_float (135395 / 1000) = 4763788058967409 / 35184372088832"
    by code_simp
  have n: "(5030661521261199 / 35184372088832 :: rat) \<noteq> 135395 / 1000"
    by simp
  have m: "filter_rgb_to_grayscale (uniform_rgb 1 1 [100, 150, 200]) ''float'' \<noteq>
     Inr (NDArray [1, 1] (Float64s [py_float (135395 / 1000)]))"
    unfolding v p by simp
  have s: "(2125 / 10000 * 100 + 7154 / 10000 * 150 + 721 / 10000 * 200 :: rat) = 14298 / 100"
    by simp
  show ?thesis
    by (intro conjI) (rule v, rule n, rule m, rule s)
qed

section \<open>The removal of small objects\<close>

lemma unravel_index_2d: "unravel_index [h, w] p = [p div w, p mod w]"
  by simp

lemma sk_adjacency_4: "sk_adjacency 1 [h, w] p q = neighbours4 w p q"
  by (auto simp: sk_adjacency_def adjacent_def neighbours4_def Let_def)

lemma sk_adjacency_8: "sk_adjacency 2 [h, w] p q = neighbours8 w p q"
  by (auto simp: sk_adjacency_def adjacent_def neighbours8_def Let_def)

lemma grow_eq:
  "grow c sh bs S = S \<union> {q. q < length bs \<and> bs ! q \<and> (\<exists>p\<in>S. sk_adjacency c sh p q)}"
  by (auto simp: grow_def sk_adjacency_def)

lemma reachable_foreground:
  assumes "p < length bs" and "bs ! p" and "(p, x) \<in> (fg_edges adj bs)\<^sup>*"
  shows "x < length bs \<and> bs ! x"
  using assms(3,1,2) by (induction rule: rtrancl_induct) (auto simp: fg_edges_def)

lemma label_component_closure:
  assumes "p < length bs" and "bs ! p" and "p \<in> S"
    and "S \<subseteq> (fg_edges (sk_adjacency c sh) bs)\<^sup>* `` {p}"
  shows "label_component c sh bs S = (fg_edges (sk_adjacency c sh) bs)\<^sup>* `` {p}"
  using assms
proof (induction c sh bs S rule: label_component.induct)
  case (1 c sh bs S)
  let ?E = "fg_edges (sk_adjacency c sh) bs"
  have grow_sub: "grow c sh bs S \<subseteq> ?E\<^sup>* `` {p}"
  proof
    fix q assume "q \<in> grow c sh bs S"
    then consider "q \<in> S"
      | a where "a \<in> S" "q < length bs" "bs ! q" "sk_adjacency c sh a q"
      by (auto simp: grow_eq)
    then show "q \<in> ?E\<^sup>* `` {p}"
    proof cases
      case 1
      with "1.prems"(4) show ?thesis by blast
    next
      case 2
      from 2(1) "1.prems"(4) have pa: "(p, a) \<in> ?E\<^sup>*"
        by blast
      with "1.prems"(1,2) have "a < length bs \<and> bs ! a"
        by (rule reachable_foreground)
      with 2 have "(a, q) \<in> ?E"
        by (simp add: fg_edges_def)
      with pa show ?thesis
        by (auto intro: rtrancl_into_rtrancl)
    qed
  qed
  show ?case
  proof (cases "grow c sh bs S = S")
    case True
    have closed: "y \<in> S" if "x \<in> S" "(x, y) \<in> ?E" for x y
    proof -
      from that have "y \<in> grow c sh bs S"
        by (auto simp: grow_eq fg_edges_def)
      with True show ?thesis by simp
    qed
    have "x \<in> S" if "(p, x) \<in> ?E\<^sup>*" for x
      using that by (induction rule: rtrancl_induct) (auto intro: "1.prems"(3) closed)
    with "1.prems"(4) have "S = ?E\<^sup>* `` {p}"
      by blast
    moreover from True have "label_component c sh bs S = S"
      by (subst label_component.simps) (simp add: Let_def)
    ultimately show ?thesis by simp
  next
    case False
    then have "label_component c sh bs S = label_component c sh bs (grow c sh bs S)"
      by (subst label_component.simps) (simp add: Let_def)
    also have "\<dots> = ?E\<^sup>* `` {p}"
    proof (rule "1.IH" [OF refl False "1.prems"(1,2)])
      show "p \<in> grow c sh bs S"
        using "1.prems"(3) by (simp add: grow_eq)
      show "grow c sh bs S \<subseteq> ?E\<^sup>* `` {p}"
        by (rule grow_sub)
    qed
    finally show ?thesis .
  qed
qed

lemma label_component_is_component:
  assumes "p < length bs" and "bs ! p"
  shows "label_component c sh bs {p} = connected_component (sk_adjacency c sh) bs p"
  unfolding connected_component_def
  using assms by (intro label_component_closure) auto

lemma nonzero_f64_of_bool: "map ((\<lambda>v. v \<noteq> 0) \<circ> f64_of_bool) bs = bs"
  by (induction bs) (simp_all add: f64_of_bool_def)

lemma nonzero_f64_of_u8: "map ((\<lambda>v. v \<noteq> 0) \<circ> f64_of_u8) us = map (\<lambda>u. u \<noteq> 0) us"
  by (induction us) (simp_all add: f64_of_u8_def unsigned_eq_0_iff)

lemma astype_bool_mask: "astype_bool a = NDArray (shape a) (Bools (mask_of a))"
  by (cases a)
    (simp add: astype_bool_def mask_of_def elem_vals_def nonzero_f64_of_bool nonzero_f64_of_u8
      split: elems.splits)

lemma length_mask_of [simp]: "length (mask_of a) = arr_size a"
  by (simp add: mask_of_def arr_size_def)

lemma sk_remove_small_objects_bool:
  "sk_remove_small_objects (NDArray sh (Bools bs)) min_size c =
     Inr (NDArray sh (Bools (map (\<lambda>p. bs ! p \<and>
            min_size \<le> int (card (connected_component (sk_adjacency c sh) bs p)))
          [0..<length bs])))"
proof (cases "min_size = 0")
  case True
  have "map (\<lambda>p. bs ! p \<and> 0 \<le> int (card (connected_component (sk_adjacency c sh) bs p)))
          [0..<length bs] = map ((!) bs) [0..<length bs]"
    by simp
  also have "\<dots> = bs"
    by (rule map_nth)
  finally show ?thesis
    using True by (simp add: sk_remove_small_objects_def)
next
  case False
  have "map (\<lambda>p. bs ! p \<and> \<not> int (card (label_component c sh bs {p})) < min_size) [0..<length bs]
      = map (\<lambda>p. bs ! p \<and> min_size \<le> int (card (connected_component (sk_adjacency c sh) bs p)))
          [0..<length bs]"
    by (rule map_cong) (auto simp: label_component_is_component)
  with False show ?thesis
    by (simp add: sk_remove_small_objects_def)
qed

lemma remove_small_objects_2d:
  assumes "shape np_img = [h, w]" and "0 < arr_size np_img"
  shows "\<exists>r. filter_remove_small_objects sk_remove_small_objects_default np_img min_size
                output_type = Inr r \<and>
             keeps_large_components (sk_adjacency 1 [h, w]) np_img min_size r"
proof -
  let ?bs = "mask_of np_img"
  let ?out = "map (\<lambda>p. ?bs ! p \<and>
            min_size \<le> int (card (connected_component (sk_adjacency 1 [h, w]) ?bs p)))
          [0..<length ?bs]"
  let ?r = "if output_type = ''bool'' then NDArray [h, w] (Bools ?out)
            else if output_type = ''float'' then astype_float (NDArray [h, w] (Bools ?out))
            else np_mul_int (astype_uint8 (NDArray [h, w] (Bools ?out))) 255"
  have size: "arr_size ?r = arr_size np_img"
    by (simp add: astype_float_def astype_uint8_def np_mul_int_def)
  have "filter_remove_small_objects sk_remove_small_objects_default np_img min_size output_type
      = report_and_return ?r"
    by (simp add: filter_remove_small_objects_def sk_remove_small_objects_default_def
        astype_bool_mask assms(1) sk_remove_small_objects_bool)
  with size assms(2) have res: "filter_remove_small_objects sk_remove_small_objects_default
      np_img min_size output_type = Inr ?r"
    by (simp add: report_and_return_eq)
  have "is_foreground ?r p = ?out ! p" if "p < arr_size np_img" for p
    using that by (intro foreground_of_mask) simp
  then have "keeps_large_components (sk_adjacency 1 [h, w]) np_img min_size ?r"
    by (simp add: keeps_large_components_def)
  with res show ?thesis
    by blast
qed

lemma neighbours4_is_sk: "neighbours4 w = sk_adjacency 1 [h, w]"
  by (intro ext) (rule sk_adjacency_4 [symmetric])

lemma neighbours8_is_sk: "neighbours8 w = sk_adjacency 2 [h, w]"
  by (intro ext) (rule sk_adjacency_8 [symmetric])

lemma demo_blobs_result:
  "filter_remove_small_objects sk_remove_small_objects_default demo_blobs 2 ''uint8'' =
     Inr demo_blobs_cleaned"
  by code_simp

lemma demo_diagonal_result:
  "filter_remove_small_objects sk_remove_small_objects_default demo_diagonal 2 ''bool'' =
     Inr demo_all_background"
  by code_simp

lemma demo_diagonal_component8:
  "connected_component (neighbours8 2) (mask_of demo_diagonal) 0 = {0, 3}"
proof -
  have m: "mask_of demo_diagonal = [True, False, False, True]"
    by code_simp
  have "label_component 2 [2, 2] [True, False, False, True] {0} = {0, 3}"
    by code_simp
  then show ?thesis
    by (simp add: m neighbours8_is_sk [where h = 2]
        label_component_is_component [symmetric])
qed

text \<open>
  C7 (as amended). \<open>filter_remove_small_objects\<close> first coerces its input to boolean,
  whatever the element type, and then clears every connected component with fewer than
  \<open>min_size\<close> pixels, where components are taken under the adjacency of the 4 pixels
  that share an edge: the module names no connectivity, and the default of the library
  is \<open>connectivity = 1\<close>. A component of at least \<open>min_size\<close> pixels is unchanged, and
  background stays background. (Stated for a two-dimensional image with at least one
  pixel.)

  As stated for the adjacency of 8 neighbours the claim fails: two pixels that touch at
  a corner are one component of two pixels there, but the filter removes both for
  \<open>min_size = 2\<close>.
\<close>

theorem remove_small_objects_components:
  assumes "shape np_img = [h, w]" and "0 < arr_size np_img"
  shows "\<exists>r. filter_remove_small_objects sk_remove_small_objects_default np_img min_size
                output_type = Inr r \<and>
             keeps_large_components (neighbours4 w) np_img min_size r"
  using remove_small_objects_2d [OF assms]
  by (simp add: neighbours4_is_sk [where h = h])

theorem remove_small_objects_components_witness:
  "shape demo_blobs = [2, 3] \<and> 0 < arr_size demo_blobs \<and>
   filter_remove_small_objects sk_remove_small_objects_default demo_blobs 2 ''uint8'' =
     Inr demo_blobs_cleaned \<and>
   keeps_large_components (neighbours4 3) demo_blobs 2 demo_blobs_cleaned"
proof -
  have a: "shape demo_blobs = [2, 3]" and b: "0 < arr_size demo_blobs"
    by (simp_all add: demo_blobs_def)
  from remove_small_objects_components [OF a b, where min_size = 2 and output_type = "''uint8''"]
  have "keeps_large_components (neighbours4 3) demo_blobs 2 demo_blobs_cleaned"
    by (simp add: demo_blobs_result)
  with a b demo_blobs_result show ?thesis
    by blast
qed

theorem remove_small_objects_8_neighbours_counterexample:
  "shape demo_diagonal = [2, 2] \<and>
   filter_remove_small_objects sk_remove_small_objects_default demo_diagonal 2 ''bool'' =
     Inr demo_all_background \<and>
   connected_component (neighbours8 2) (mask_of demo_diagonal) 0 = {0, 3} \<and>
   \<not> keeps_large_components (neighbours8 2) demo_diagonal 2 demo_all_background"
proof -
  have m: "mask_of demo_diagonal ! 0"
    by code_simp
  have f: "\<not> is_foreground demo_all_background 0"
    by (simp add: is_foreground_def pixel_def demo_all_background_def elem_vals_def
        f64_of_bool_def)
  have s: "(0::nat) < arr_size demo_diagonal"
    by (simp add: demo_diagonal_def)
  have "\<not> keeps_large_components (neighbours8 2) demo_diagonal 2 demo_all_background"
  proof
    assume "keeps_large_components (neighbours8 2) demo_diagonal 2 demo_all_background"
    with s have "is_foreground demo_all_background 0 \<longleftrightarrow>
        (mask_of demo_diagonal ! 0 \<and>
         2 \<le> int (card (connected_component (neighbours8 2) (mask_of demo_diagonal) 0)))"
      unfolding keeps_large_components_def by blast
    with m f show False
      by (simp add: demo_diagonal_component8)
  qed
  then show ?thesis
    using demo_diagonal_result demo_diagonal_component8 by (simp add: demo_diagonal_def)
qed

section \<open>The subtract-mean filter\<close>

lemma concat_grid_member:
  "q \<in> set (concat (map (\<lambda>i. concat (map (\<lambda>j. if P i j then [f i j] else []) [0..<n])) [0..<m]))
     \<longleftrightarrow> (\<exists>i<m. \<exists>j<n. P i j \<and> q = f i j)"
  by (fastforce split: if_splits)

lemma window_member:
  "q \<in> set (window h w (NDArray [m, n] es) p) \<longleftrightarrow>
     (\<exists>i<m. \<exists>j<n. (mask_of (NDArray [m, n] es) ! (i * n + j) \<and>
        m div 2 \<le> p div w + i \<and> p div w + i - m div 2 < h \<and>
        n div 2 \<le> p mod w + j \<and> p mod w + j - n div 2 < w) \<and>
        q = (p div w + i - m div 2) * w + (p mod w + j - n div 2))"
  unfolding window_def
  by (simp only: ndarray.sel list.case concat_grid_member)

lemma position_bound:
  fixes r c h w :: nat
  assumes "r < h" and "c < w"
  shows "r * w + c < h * w"
proof -
  have "r * w + c < r * w + w"
    using assms(2) by simp
  also have "\<dots> = Suc r * w"
    by simp
  also have "\<dots> \<le> h * w"
    using assms(1) by (intro mult_le_mono1) simp
  finally show ?thesis .
qed

lemma window_bound:
  assumes "q \<in> set (window h w (NDArray [m, n] es) p)"
  shows "q < h * w"
  using assms by (auto simp: window_member intro: position_bound)

lemma ones_mask:
  assumes "k < n * n"
  shows "mask_of (NDArray [n, n] (Float64s (replicate (n * n) 1))) ! k"
  using assms by (simp add: mask_of_def elem_vals_def)

lemma window_has_centre:
  assumes "p < h * w" and "0 < n"
  shows "p \<in> set (window h w (NDArray [n, n] (Float64s (replicate (n * n) 1))) p)"
proof -
  from assms(1) have w: "0 < w"
    by (cases w) simp_all
  from assms(2) have c: "n div 2 < n"
    by simp
  then have "n div 2 * n + n div 2 < n * n"
    by (rule position_bound [OF _ c])
  then have m: "mask_of (NDArray [n, n] (Float64s (replicate (n * n) 1))) ! (n div 2 * n + n div 2)"
    by (rule ones_mask)
  from assms(1) have r: "p div w < h"
    by (simp add: less_mult_imp_div_less)
  from w have cw: "p mod w < w"
    by simp
  show ?thesis
    unfolding window_member
    using c m r cw by (intro exI [of _ "n div 2"] conjI) simp_all
qed

lemma sum_pixels:
  assumes "\<And>q. q \<in> set nb \<Longrightarrow> q < length xs"
  shows "sum_list (map (pixel (NDArray sh (UInt8s xs))) nb) =
           of_nat (sum_list (map (\<lambda>q. unat (xs ! q)) nb))"
  using assms
  by (induction nb) (simp_all add: pixel_def elem_vals_def f64_of_u8_def)

lemma kernel_is_shifted_half_difference:
  assumes "shape selem = [n, n]" and "0 < n" and "p < h * w" and "length xs = h * w"
    and "selem = NDArray [n, n] (Float64s (replicate (n * n) 1))"
  shows "subtract_mean_kernel xs (window h w selem p) (xs ! p) =
           shifted_half_difference (pixel (NDArray [h, w] (UInt8s xs)) p)
             (local_mean (NDArray [h, w] (UInt8s xs)) selem p)"
proof -
  let ?nb = "window h w selem p"
  have "p \<in> set ?nb"
    unfolding assms(5) using assms(3,2) by (rule window_has_centre)
  then have pop: "length ?nb \<noteq> 0"
    by auto
  have "q < length xs" if "q \<in> set ?nb" for q
    using that unfolding assms(5,4) by (rule window_bound)
  then have s: "sum_list (map (pixel (NDArray [h, w] (UInt8s xs))) ?nb) =
           of_nat (sum_list (map (\<lambda>q. unat (xs ! q)) ?nb))"
    by (rule sum_pixels)
  have g: "pixel (NDArray [h, w] (UInt8s xs)) p = f64_of_u8 (xs ! p)"
    using assms(3,4) by (simp add: pixel_def elem_vals_def)
  show ?thesis
    using pop
    by (simp add: subtract_mean_kernel_def shifted_half_difference_def local_mean_def
        Let_def s g f64_div_def)
qed

lemma demo_ones3_eq: "np_ones2 3 = Inr demo_ones3"
  by code_simp

lemma demo_gray_result:
  "filter_subtract_mean sk_rank_subtract_mean demo_gray 3 ''uint8'' = Inr demo_gray_marked"
  by code_simp

lemma demo_bright_result:
  "filter_subtract_mean sk_rank_subtract_mean demo_bright 3 ''bool'' = Inr demo_all_foreground"
  by code_simp

lemma demo_bright_mean: "local_mean demo_bright demo_ones3 0 = 200"
  by code_simp

lemma demo_bright_pixel: "pixel demo_bright 0 = 200"
  by code_simp

text \<open>
  C8 (as amended). For a two-dimensional image of 8-bit unsigned integers and a window of
  side \<open>neigh > 0\<close>, \<open>filter_subtract_mean\<close> passes the image and a square of ones to
  the rank filter \<open>rank.subtract_mean\<close> and marks a pixel exactly when the pixel exceeds
  the value of that filter at the pixel. That value is not the local mean: it is the
  halved difference of the pixel and the local mean of its window, shifted by 127 and
  truncated, \<open>(g - mean) / 2 + 127\<close>.

  As stated (foreground exactly when the pixel exceeds its local mean) the claim fails:
  in an image in which every pixel is 200 the local mean is 200 everywhere, no pixel
  exceeds it, and the filter marks every pixel (the value of the rank filter is 127).
\<close>

theorem subtract_mean_marks:
  assumes "shape np_img = [h, w]" and "is_uint8 np_img" and "wf_array np_img"
    and "0 < arr_size np_img" and "0 < neigh"
  shows "\<exists>selem r. np_ones2 neigh = Inr selem \<and>
           filter_subtract_mean sk_rank_subtract_mean np_img neigh output_type = Inr r \<and>
           marks_above_shifted_half_difference np_img selem r"
proof -
  from assms(1,2) obtain xs where img: "np_img = NDArray [h, w] (UInt8s xs)"
    by (cases np_img) (auto simp: is_uint8_def split: elems.splits)
  from assms(3) have len: "length xs = h * w"
    by (simp add: img wf_array_def)
  define n where "n = nat neigh"
  define selem where "selem = NDArray [n, n] (Float64s (replicate (n * n) 1))"
  from assms(5) have n: "0 < n"
    by (simp add: n_def)
  from assms(5) have ones: "np_ones2 neigh = Inr selem"
    by (simp add: np_ones2_def selem_def n_def)
  let ?s = "map (\<lambda>p. subtract_mean_kernel xs (window h w selem p) (xs ! p)) [0..<length xs]"
  let ?m = "map2 (\<lambda>x y. y < x) (map f64_of_u8 xs) (map f64_of_u8 ?s)"
  let ?r = "if output_type = ''bool'' then NDArray [h, w] (Bools ?m)
            else if output_type = ''float'' then astype_float (NDArray [h, w] (Bools ?m))
            else np_mul_int (astype_uint8 (NDArray [h, w] (Bools ?m))) 255"
  have lib: "sk_rank_subtract_mean np_img selem = Inr (NDArray [h, w] (UInt8s ?s))"
    by (simp add: sk_rank_subtract_mean_def img)
  have gt: "np_gt np_img (NDArray [h, w] (UInt8s ?s)) = Inr (NDArray [h, w] (Bools ?m))"
    by (simp add: np_gt_def img elem_vals_def)
  have size: "arr_size ?r = length xs"
    by (simp add: astype_float_def astype_uint8_def np_mul_int_def)
  have "filter_subtract_mean sk_rank_subtract_mean np_img neigh output_type
      = report_and_return ?r"
    by (simp add: filter_subtract_mean_def ones lib gt)
  with size assms(4) have res:
    "filter_subtract_mean sk_rank_subtract_mean np_img neigh output_type = Inr ?r"
    by (simp add: report_and_return_eq img)
  have "is_foreground ?r p \<longleftrightarrow>
          f64_of_u8 (shifted_half_difference (pixel np_img p) (local_mean np_img selem p))
            < pixel np_img p" if p: "p < arr_size np_img" for p
  proof -
    from p have pl: "p < length xs"
      by (simp add: img)
    then have "is_foreground ?r p = ?m ! p"
      by (intro foreground_of_mask) simp
    also from pl have "\<dots> \<longleftrightarrow> f64_of_u8 (subtract_mean_kernel xs (window h w selem p) (xs ! p))
        < f64_of_u8 (xs ! p)"
      by simp
    also have "subtract_mean_kernel xs (window h w selem p) (xs ! p) =
        shifted_half_difference (pixel np_img p) (local_mean np_img selem p)"
      unfolding img
      using n pl len by (intro kernel_is_shifted_half_difference [where n = n])
        (simp_all add: selem_def)
    also from pl have "f64_of_u8 (xs ! p) = pixel np_img p"
      by (simp add: img pixel_def elem_vals_def)
    finally show ?thesis .
  qed
  then have "marks_above_shifted_half_difference np_img selem ?r"
    by (simp add: marks_above_shifted_half_difference_def)
  with ones res show ?thesis
    by blast
qed

theorem subtract_mean_marks_witness:
  "shape demo_gray = [1, 2] \<and> is_uint8 demo_gray \<and> wf_array demo_gray \<and>
   0 < arr_size demo_gray \<and> (0::int) < 3 \<and>
   np_ones2 3 = Inr demo_ones3 \<and>
   filter_subtract_mean sk_rank_subtract_mean demo_gray 3 ''uint8'' = Inr demo_gray_marked \<and>
   marks_above_shifted_half_difference demo_gray demo_ones3 demo_gray_marked"
proof -
  have a: "shape demo_gray = [1, 2]" and b: "is_uint8 demo_gray" and c: "wf_array demo_gray"
    and d: "0 < arr_size demo_gray"
    by (simp_all add: demo_gray_def is_uint8_def wf_array_def)
  have e: "(0::int) < 3"
    by simp
  from subtract_mean_marks [OF a b c d e, where output_type = "''uint8''"]
  have "marks_above_shifted_half_difference demo_gray demo_ones3 demo_gray_marked"
    by (simp add: demo_ones3_eq demo_gray_result)
  with a b c d e demo_ones3_eq demo_gray_result show ?thesis
    by blast
qed

theorem subtract_mean_local_mean_counterexample:
  "np_ones2 3 = Inr demo_ones3 \<and>
   filter_subtract_mean sk_rank_subtract_mean demo_bright 3 ''bool'' = Inr demo_all_foreground \<and>
   local_mean demo_bright demo_ones3 0 = 200 \<and> pixel demo_bright 0 = 200 \<and>
   \<not> marks_above_local_mean demo_bright demo_ones3 demo_all_foreground"
proof -
  have f: "is_foreground demo_all_foreground 0"
    by (simp add: is_foreground_def pixel_def demo_all_foreground_def elem_vals_def
        f64_of_bool_def)
  have s: "(0::nat) < arr_size demo_bright"
    by (simp add: demo_bright_def)
  have "\<not> marks_above_local_mean demo_bright demo_ones3 demo_all_foreground"
  proof
    assume "marks_above_local_mean demo_bright demo_ones3 demo_all_foreground"
    with s have "is_foreground demo_all_foreground 0 \<longleftrightarrow>
        local_mean demo_bright demo_ones3 0 < pixel demo_bright 0"
      unfolding marks_above_local_mean_def by blast
    with f show False
      by (simp add: demo_bright_mean demo_bright_pixel)
  qed
  with demo_ones3_eq demo_bright_result demo_bright_mean demo_bright_pixel show ?thesis
    by blast
qed

section \<open>The modal filter\<close>

text \<open>
  C9. The result of \<open>filter_modal\<close> does not depend on its \<open>output_type\<close>: any two
  values of the parameter give the same result, and where the rank filter returns an
  array (with at least one element) the filter returns that array as it is.
\<close>

theorem modal_ignores_output_type:
  "filter_modal rank_modal np_img neigh t1 = filter_modal rank_modal np_img neigh t2 \<and>
   (np_ones2 neigh = Inr selem \<and> rank_modal np_img selem = Inr modal \<and> 0 < arr_size modal
      \<longrightarrow> filter_modal rank_modal np_img neigh t1 = Inr modal)"
  by (simp add: filter_modal_def report_and_return_eq)

theorem modal_ignores_output_type_witness:
  "np_ones2 50 = Inr (NDArray [50, 50] (Float64s (replicate 2500 1))) \<and>
   demo_rank demo_image (NDArray [50, 50] (Float64s (replicate 2500 1)))
     = Inr (NDArray [1, 2] (UInt8s [100, 100])) \<and>
   0 < arr_size (NDArray [1, 2] (UInt8s [100, 100])) \<and>
   filter_modal demo_rank demo_image 50 ''bool'' = Inr (NDArray [1, 2] (UInt8s [100, 100])) \<and>
   filter_modal demo_rank demo_image 50 ''bool'' = filter_modal demo_rank demo_image 50 ''float''"
proof -
  have o: "np_ones2 50 = Inr (NDArray [50, 50] (Float64s (replicate 2500 1)))"
    by (simp add: np_ones2_def)
  have r: "demo_rank demo_image (NDArray [50, 50] (Float64s (replicate 2500 1)))
     = Inr (NDArray [1, 2] (UInt8s [100, 100]))"
    by (simp add: demo_rank_def demo_image_def arr_size_def elems_len_def numeral_2_eq_2)
  have s: "0 < arr_size (NDArray [1, 2] (UInt8s [100, 100]))"
    by (simp add: arr_size_def elems_len_def)
  note m = modal_ignores_output_type
    [where rank_modal = demo_rank and np_img = demo_image and neigh = 50
       and ?t1.0 = "''bool''" and ?t2.0 = "''float''"
       and selem = "NDArray [50, 50] (Float64s (replicate 2500 1))"
       and modal = "NDArray [1, 2] (UInt8s [100, 100])"]
  have e: "filter_modal demo_rank demo_image 50 ''bool'' = filter_modal demo_rank demo_image 50 ''float''"
    by (rule m [THEN conjunct1])
  have v: "filter_modal demo_rank demo_image 50 ''bool'' = Inr (NDArray [1, 2] (UInt8s [100, 100]))"
    using m [THEN conjunct2] o r s by blast
  show ?thesis using o r s e v by blast
qed

section \<open>Importing the module\<close>

lemma filter_try_unbound: "lookup_name module_globals ''filter_try'' = Inl (NameError ''filter_try'')"
  by (simp add: lookup_name_def module_globals_def)

lemma module_script_fails: "\<exists>e. module_script ext = Inl e"
proof -
  have "module_script ext \<noteq> Inr ()"
    by (simp add: module_script_def bindE_eq_Inr filter_try_unbound)
  then show ?thesis
    by (cases "module_script ext") simp_all
qed

lemma concat_length_pos:
  assumes "list_all (\<lambda>px. length px = c) pxs" and "0 < length pxs" and "0 < c"
  shows "0 < length (concat pxs)"
  using assms by (cases pxs) auto

lemma module_script_name_error:
  assumes "import_modules ext = Inr ()"
    and "get_training_thumb_path ext 2 = Inr p"
    and "open_image ext p = Inr img"
    and "wf_rgb img" and "3 \<le> channels img" and "0 < height img * width img"
    and "\<And>a. show_image ext a = Inr ()"
  shows "module_script ext = Inl (NameError ''filter_try'')"
proof -
  from assms(4-6) have "0 < length (concat (pixels img))"
    by (intro concat_length_pos [where c = "channels img"]) (simp_all add: wf_rgb_def)
  then have rgb: "pil_to_np_rgb img = Inr img"
    by (simp add: pil_to_np_rgb_def np_info_def rgb_array_def)
  have gray: "filter_rgb_to_grayscale img ''uint8'' =
           Inr (NDArray [height img, width img]
             (UInt8s (map (\<lambda>px. word_of_int (trunc (luminance px))) (pixels img))))"
    using assms(4-6) by (simp add: grayscale_uint8)
  from assms(4,6) have "0 < length (pixels img)"
    by (simp add: wf_rgb_def)
  then have compl: "\<exists>c. filter_complement (NDArray [height img, width img]
             (UInt8s (map (\<lambda>px. word_of_int (trunc (luminance px))) (pixels img)))) ''uint8'' = Inr c"
    by (simp add: filter_complement_def np_rsub_int_def report_and_return_eq)
  then obtain c where c: "filter_complement (NDArray [height img, width img]
             (UInt8s (map (\<lambda>px. word_of_int (trunc (luminance px))) (pixels img)))) ''uint8'' = Inr c"
    by blast
  show ?thesis
    by (simp add: module_script_def assms(1-3,7) rgb gray c filter_try_unbound)
qed

text \<open>
  C10. Importing the module never completes: for every behaviour of the slide module and
  the viewer the script ends in an exception. When the imports, the lookup of the
  thumbnail, its opening (a non-empty RGB image) and its display succeed, the exception
  is the \<open>NameError\<close> for \<open>filter_try\<close>, whose definition is commented out.
\<close>

theorem module_import_fails:
  "(\<exists>e. module_script ext = Inl e) \<and>
   (import_modules ext = Inr () \<and> get_training_thumb_path ext 2 = Inr p \<and>
    open_image ext p = Inr img \<and> wf_rgb img \<and> 3 \<le> channels img \<and>
    0 < height img * width img \<and> show_image ext = (\<lambda>a. Inr ())
      \<longrightarrow> module_script ext = Inl (NameError ''filter_try''))"
  using module_script_fails module_script_name_error
  by (metis (full_types))

theorem module_import_fails_witness:
  "import_modules demo_collaborators = Inr () \<and>
   get_training_thumb_path demo_collaborators 2 = Inr ''thumb.png'' \<and>
   open_image demo_collaborators ''thumb.png'' = Inr demo_rgb \<and>
   wf_rgb demo_rgb \<and> 3 \<le> channels demo_rgb \<and> 0 < height demo_rgb * width demo_rgb \<and>
   show_image demo_collaborators = (\<lambda>a. Inr ()) \<and>
   module_script demo_collaborators = Inl (NameError ''filter_try'')"
proof -
  have a: "import_modules demo_collaborators = Inr ()"
    and b: "get_training_thumb_path demo_collaborators 2 = Inr ''thumb.png''"
    and c: "open_image demo_collaborators ''thumb.png'' = Inr demo_rgb"
    and d: "show_image demo_collaborators = (\<lambda>a. Inr ())"
    by (simp_all add: demo_collaborators_def)
  have e: "wf_rgb demo_rgb" and f: "3 \<le> channels demo_rgb"
    and g: "0 < height demo_rgb * width demo_rgb"
    by (simp_all add: demo_rgb_def wf_rgb_def)
  have "module_script demo_collaborators = Inl (NameError ''filter_try'')"
    using module_import_fails [where ext = demo_collaborators and p = "''thumb.png''"
        and img = demo_rgb, THEN conjunct2] a b c d e f g
    by blast
  then show ?thesis
    using a b c d e f g by blast
qed

end
